theory Spec2Isabelle
  imports Complex_Main
begin

chapter \<open>The costing engine of the Safire Appraisal comparator\<close>

text \<open>
  The component prices a piece of jewellery from a list of material lines, adds a labour
  cost, and compares the total with the quoted price. This theory embeds the functions of
  the fuller of the two versions of the component that bear on that computation:
  \<open>toNumber\<close>, the geometry estimators, \<open>toGrams\<close>, \<open>calcLine\<close>, the totals and
  percentages, the diagnosis effect, \<open>saveHistory\<close> and \<open>detectMaterialFromAlias\<close>. Every
  entry of the form is a string, and every function is total: nothing here throws.
\<close>

section \<open>JavaScript numbers\<close>

text \<open>
  The calculator computes with JavaScript numbers. A number is modelled as a finite value,
  one of the two infinities, or NaN. The arithmetic follows IEEE 754 on the special values
  (\<open>0 * Infinity = NaN\<close>, \<open>Infinity - Infinity = NaN\<close>, every comparison with NaN is false).
  It sends a finite result to an infinity when its magnitude reaches the overflow
  threshold of a double, \<open>2^1024 - 2^970\<close>, and to zero when its magnitude is at most
  \<open>2^-1075\<close>, half of the smallest double: these are the results that rounding to nearest,
  ties to even, sends there. On operands that are doubles, an operation therefore gives
  an infinity, a zero, a positive or a negative number here exactly when it does in the
  code.

  What is idealised is the mantissa: a result between the two thresholds keeps all its
  digits, where a double keeps 53 bits (fewer below \<open>2^-1022\<close>), so \<open>0.1 + 0.2\<close> is
  \<open>0.3\<close> here. And \<open>-0\<close> is the same value as \<open>0\<close>: the two compare equal, and they differ
  only under a division by zero, which the code keeps out with its guards. The statements
  below are about signs, guards, structure and the special values. None of them depends on
  the digits that rounding changes, and none infers that a result is not zero from its
  operands being not zero.
\<close>

datatype jsnum = Fin real | PInf | NInf | NaN

definition overflow_threshold :: real where
  "overflow_threshold = 2 ^ 1024 - 2 ^ 970"

definition underflow_threshold :: real where
  "underflow_threshold = 1 / 2 ^ 1075"

definition rnd :: "real \<Rightarrow> jsnum" where
  "rnd x = (if overflow_threshold \<le> x then PInf
            else if x \<le> - overflow_threshold then NInf
            else if \<bar>x\<bar> \<le> underflow_threshold then Fin 0
            else Fin x)"

text \<open>The infinity with the sign of a finite factor; \<open>0 * Infinity\<close> is NaN.\<close>

definition signed_inf :: "real \<Rightarrow> jsnum" where
  "signed_inf x = (if 0 < x then PInf else if x < 0 then NInf else NaN)"

fun jneg :: "jsnum \<Rightarrow> jsnum" where
  "jneg (Fin x) = Fin (- x)"
| "jneg PInf = NInf"
| "jneg NInf = PInf"
| "jneg NaN = NaN"

fun jadd :: "jsnum \<Rightarrow> jsnum \<Rightarrow> jsnum" where
  "jadd (Fin a) (Fin b) = rnd (a + b)"
| "jadd NaN y = NaN"
| "jadd x NaN = NaN"
| "jadd PInf NInf = NaN"
| "jadd NInf PInf = NaN"
| "jadd PInf y = PInf"
| "jadd NInf y = NInf"
| "jadd x PInf = PInf"
| "jadd x NInf = NInf"

definition jsub :: "jsnum \<Rightarrow> jsnum \<Rightarrow> jsnum" where
  "jsub x y = jadd x (jneg y)"

fun jmul :: "jsnum \<Rightarrow> jsnum \<Rightarrow> jsnum" where
  "jmul (Fin a) (Fin b) = rnd (a * b)"
| "jmul NaN y = NaN"
| "jmul x NaN = NaN"
| "jmul PInf (Fin b) = signed_inf b"
| "jmul NInf (Fin b) = signed_inf (- b)"
| "jmul (Fin a) PInf = signed_inf a"
| "jmul (Fin a) NInf = signed_inf (- a)"
| "jmul PInf PInf = PInf"
| "jmul PInf NInf = NInf"
| "jmul NInf PInf = NInf"
| "jmul NInf NInf = PInf"

fun jdiv :: "jsnum \<Rightarrow> jsnum \<Rightarrow> jsnum" where
  "jdiv (Fin a) (Fin b) = (if b = 0 then signed_inf a else rnd (a / b))"
| "jdiv NaN y = NaN"
| "jdiv x NaN = NaN"
| "jdiv (Fin a) PInf = Fin 0"
| "jdiv (Fin a) NInf = Fin 0"
| "jdiv PInf (Fin b) = (if b < 0 then NInf else PInf)"
| "jdiv NInf (Fin b) = (if b < 0 then PInf else NInf)"
| "jdiv PInf y = NaN"
| "jdiv NInf y = NaN"

text \<open>The relational operators \<open><\<close>, \<open>>\<close>, \<open><=\<close>, \<open>>=\<close>: false as soon as an operand is NaN.\<close>

fun jlt :: "jsnum \<Rightarrow> jsnum \<Rightarrow> bool" where
  "jlt (Fin a) (Fin b) = (a < b)"
| "jlt NaN y = False"
| "jlt x NaN = False"
| "jlt PInf y = False"
| "jlt x NInf = False"
| "jlt NInf y = True"
| "jlt x PInf = True"

fun jle :: "jsnum \<Rightarrow> jsnum \<Rightarrow> bool" where
  "jle (Fin a) (Fin b) = (a \<le> b)"
| "jle NaN y = False"
| "jle x NaN = False"
| "jle NInf y = True"
| "jle x PInf = True"
| "jle PInf y = False"
| "jle x NInf = False"

definition jgt :: "jsnum \<Rightarrow> jsnum \<Rightarrow> bool" where
  "jgt x y = jlt y x"

definition jge :: "jsnum \<Rightarrow> jsnum \<Rightarrow> bool" where
  "jge x y = jle y x"

text \<open>\<open>Math.max\<close> of two arguments, \<open>Math.floor\<close>, \<open>Number.isFinite\<close>, and the truth value
  of a number (\<open>0\<close> and NaN are falsy).\<close>

fun Math_max :: "jsnum \<Rightarrow> jsnum \<Rightarrow> jsnum" where
  "Math_max NaN y = NaN"
| "Math_max x NaN = NaN"
| "Math_max x y = (if jlt x y then y else x)"

fun Math_floor :: "jsnum \<Rightarrow> jsnum" where
  "Math_floor (Fin x) = Fin (of_int \<lfloor>x\<rfloor>)"
| "Math_floor x = x"

fun isFinite :: "jsnum \<Rightarrow> bool" where
  "isFinite (Fin x) = True"
| "isFinite x = False"

fun truthy :: "jsnum \<Rightarrow> bool" where
  "truthy (Fin x) = (x \<noteq> 0)"
| "truthy NaN = False"
| "truthy x = True"

text \<open>\<open>Math.PI\<close> is the double nearest to \<open>\<pi>\<close>.\<close>

definition Math_PI :: jsnum where
  "Math_PI = Fin (884279719003555 / 281474976710656)"

section \<open>Strings and \<open>parseFloat\<close>\<close>

text \<open>
  A string is a list of code units; the 8-bit characters of HOL stand for the code units
  \<open>0..255\<close> (Latin-1). The white space of ECMAScript in that range is TAB, LF, VT, FF, CR,
  SPACE and NBSP; \<open>parseFloat\<close>, \<open>trim\<close> and the pattern \<open>\s\<close> all use this set.
\<close>

definition isWhiteSpace :: "char \<Rightarrow> bool" where
  "isWhiteSpace c = (c \<in> set [CHR 0x09, CHR 0x0A, CHR 0x0B, CHR 0x0C, CHR 0x0D, CHR 0x20, CHR 0xA0])"

definition isDigit :: "char \<Rightarrow> bool" where
  "isDigit c = (c \<in> set ''0123456789'')"

definition digit_val :: "char \<Rightarrow> nat" where
  "digit_val c = of_char c - 48"

definition digits_val :: "string \<Rightarrow> nat" where
  "digits_val ds = foldl (\<lambda>n c. 10 * n + digit_val c) 0 ds"

text \<open>\<open>ExponentPart\<close>: \<open>e\<close> or \<open>E\<close>, an optional sign, and at least one digit. When the
  digits are missing the literal ends before the \<open>e\<close>, so the exponent is 0.\<close>

definition exponent_digits :: "int \<Rightarrow> string \<Rightarrow> int" where
  "exponent_digits sg s = sg * int (digits_val (takeWhile isDigit s))"

fun exponent_part :: "string \<Rightarrow> int" where
  "exponent_part [] = 0"
| "exponent_part [c] = 0"
| "exponent_part (c # d # r) =
     (if c = CHR ''e'' \<or> c = CHR ''E'' then
        (if d = CHR ''+'' then exponent_digits 1 r
         else if d = CHR ''-'' then exponent_digits (- 1) r
         else exponent_digits 1 (d # r))
      else 0)"

text \<open>The value of the digits \<open>ip.fp\<close> times ten to the \<open>e\<close>, as a number.\<close>

definition scale10 :: "real \<Rightarrow> int \<Rightarrow> real" where
  "scale10 x e = (if 0 \<le> e then x * 10 ^ nat e else x / 10 ^ nat (- e))"

definition decimal_value :: "string \<Rightarrow> string \<Rightarrow> int \<Rightarrow> jsnum" where
  "decimal_value ip fp e = rnd (scale10 (real (digits_val (ip @ fp))) (e - int (length fp)))"

text \<open>\<open>StrUnsignedDecimalLiteral\<close>: \<open>Infinity\<close>, digits with an optional fraction and
  exponent, or a fraction that starts with the point. The longest prefix that is such a
  literal is read and the rest of the string is ignored; no such prefix gives NaN.\<close>

definition unsigned_literal :: "string \<Rightarrow> jsnum" where
  "unsigned_literal s =
     (if take 8 s = ''Infinity'' then PInf
      else
        let ip = takeWhile isDigit s; r1 = dropWhile isDigit s in
        if ip \<noteq> [] then
          (case r1 of
             [] \<Rightarrow> decimal_value ip [] 0
           | c # r \<Rightarrow>
               if c = CHR ''.''
               then decimal_value ip (takeWhile isDigit r) (exponent_part (dropWhile isDigit r))
               else decimal_value ip [] (exponent_part r1))
        else
          (case r1 of
             [] \<Rightarrow> NaN
           | c # r \<Rightarrow>
               if c = CHR ''.'' \<and> takeWhile isDigit r \<noteq> []
               then decimal_value [] (takeWhile isDigit r) (exponent_part (dropWhile isDigit r))
               else NaN))"

definition parseFloat :: "string \<Rightarrow> jsnum" where
  "parseFloat s =
     (case dropWhile isWhiteSpace s of
        [] \<Rightarrow> NaN
      | c # r \<Rightarrow>
          if c = CHR ''+'' then unsigned_literal r
          else if c = CHR ''-'' then jneg (unsigned_literal r)
          else unsigned_literal (c # r))"

text \<open>\<open>toNumber(v, d)\<close>: the parsed number when it is finite, the default \<open>d\<close> otherwise.
  The fields it is applied to are strings, so \<open>String(v ?? '')\<close> is \<open>v\<close>.\<close>

definition toNumber :: "string \<Rightarrow> jsnum \<Rightarrow> jsnum" where
  "toNumber v d = (let n = parseFloat v in if isFinite n then n else d)"

section \<open>Catalogue of materials\<close>

text \<open>
  The source writes a pricing unit as one of the strings \<open>EUR/g\<close>, \<open>EUR/ct\<close> and
  \<open>EUR/cm3\<close> (with the euro sign) and only ever compares it with these constants.
  \<open>PerGram\<close>, \<open>PerCarat\<close> and \<open>PerCm3\<close> stand for the three strings and \<open>OtherUnit\<close> for
  every other value of the field.
\<close>

datatype price_unit = PerGram | PerCarat | PerCm3 | OtherUnit

record material =
  key :: string
  label :: string
  unit :: price_unit
  mat_density :: jsnum

definition mk_material :: "string \<Rightarrow> string \<Rightarrow> price_unit \<Rightarrow> real \<Rightarrow> material" where
  "mk_material k l u d = \<lparr>key = k, label = l, unit = u, mat_density = Fin d\<rparr>"

definition MATERIALS :: "material list" where
  "MATERIALS =
    [mk_material ''gold_24k'' ''Oro 24k'' PerGram 19.32,
     mk_material ''gold_18k'' ''Oro 18k'' PerGram 15.6,
     mk_material ''gold_14k'' ''Oro 14k'' PerGram 13.1,
     mk_material ''silver_925'' ''Plata 925'' PerGram 10.36,
     mk_material ''platinum_950'' ''Platino 950'' PerGram 21.45,
     mk_material ''palladium'' ''Paladio'' PerGram 12.0,
     mk_material ''titanium'' ''Titanio'' PerGram 4.5,
     mk_material ''steel_316L'' ''Acero 316L'' PerGram 8.0,
     mk_material ''brass'' (''Lat'' @ [CHR 0xF3] @ ''n'') PerGram 8.5,
     mk_material ''diamond'' ''Diamante'' PerCarat 3.52,
     mk_material ''ruby'' (''Rub'' @ [CHR 0xED]) PerCarat 4.0,
     mk_material ''sapphire'' ''Zafiro'' PerCarat 4.0,
     mk_material ''emerald'' ''Esmeralda'' PerCarat 2.7,
     mk_material ''other_metal'' ''Otro metal'' PerGram 7.8,
     mk_material ''other_mineral'' ''Otro mineral'' PerCarat 2.7]"

definition DEFAULT_DENSITY :: jsnum where
  "DEFAULT_DENSITY = Fin 2.7"

definition DEFAULT_RATE_EUR_H :: jsnum where
  "DEFAULT_RATE_EUR_H = Fin 60"

text \<open>\<open>unitFor\<close>: \<open>ct\<close> for a material priced per carat, \<open>cm3\<close> for one priced per
  volume, and \<open>g\<close> for every other material.\<close>

definition unitFor :: "material \<Rightarrow> string" where
  "unitFor mat = (if unit mat = PerCarat then ''ct'' else if unit mat = PerCm3 then ''cm3'' else ''g'')"

text \<open>\<open>allMaterials.find(x => x.key === k) || MATERIALS[0]\<close>, with
  \<open>allMaterials = [...MATERIALS, ...customMaterials]\<close>.\<close>

definition allMaterials :: "material list \<Rightarrow> material list" where
  "allMaterials customMaterials = MATERIALS @ customMaterials"

definition findMaterial :: "material list \<Rightarrow> string \<Rightarrow> material" where
  "findMaterial customMaterials k =
     (case find (\<lambda>x. key x = k) (allMaterials customMaterials) of
        Some x \<Rightarrow> x
      | None \<Rightarrow> hd MATERIALS)"

section \<open>Unit conversion and geometry\<close>

text \<open>
  \<open>WEIGHT_UNITS\<close> is an object literal, so \<open>WEIGHT_UNITS[unit]\<close> finds the three own
  properties and also what every object inherits from \<open>Object.prototype\<close>: functions, and
  under \<open>__proto__\<close> the prototype object itself. Such a value is truthy and converts to
  NaN in a product. Any other property name gives \<open>undefined\<close>.
\<close>

datatype jsval = JNumber jsnum | JObject | JUndefined

definition WEIGHT_UNITS :: "(string \<times> real) list" where
  "WEIGHT_UNITS = [(''g'', 1), (''dwt'', 1.555), (''ozt'', 31.103)]"

definition Object_prototype_names :: "string list" where
  "Object_prototype_names =
    [''constructor'', ''__proto__'', ''hasOwnProperty'', ''isPrototypeOf'',
     ''propertyIsEnumerable'', ''toLocaleString'', ''toString'', ''valueOf'',
     ''__defineGetter__'', ''__defineSetter__'', ''__lookupGetter__'', ''__lookupSetter__'']"

definition WEIGHT_UNITS_get :: "string \<Rightarrow> jsval" where
  "WEIGHT_UNITS_get u =
     (case map_of WEIGHT_UNITS u of
        Some f \<Rightarrow> JNumber (Fin f)
      | None \<Rightarrow> if u \<in> set Object_prototype_names then JObject else JUndefined)"

text \<open>\<open>a || b\<close> and the conversion of an operand of \<open>*\<close> to a number.\<close>

fun js_truthy :: "jsval \<Rightarrow> bool" where
  "js_truthy (JNumber n) = truthy n"
| "js_truthy JObject = True"
| "js_truthy JUndefined = False"

definition js_or :: "jsval \<Rightarrow> jsval \<Rightarrow> jsval" where
  "js_or a b = (if js_truthy a then a else b)"

fun ToNumber :: "jsval \<Rightarrow> jsnum" where
  "ToNumber (JNumber n) = n"
| "ToNumber JObject = NaN"
| "ToNumber JUndefined = NaN"

definition toGrams :: "string \<Rightarrow> string \<Rightarrow> jsnum" where
  "toGrams val u = jmul (toNumber val (Fin 0)) (ToNumber (js_or (WEIGHT_UNITS_get u) (JNumber (Fin 1))))"

definition estimateDiamondCarats :: "jsnum \<Rightarrow> jsnum \<Rightarrow> jsnum" where
  "estimateDiamondCarats d h = Math_max (Fin 0) (jmul (jmul (Fin 0.0061) (jmul d d)) h)"

definition volumeFromBoxMM :: "jsnum \<Rightarrow> jsnum \<Rightarrow> jsnum \<Rightarrow> jsnum" where
  "volumeFromBoxMM l w h =
     Math_max (Fin 0) (jmul (jmul (jdiv l (Fin 10)) (jdiv w (Fin 10))) (jdiv h (Fin 10)))"

definition volumeFromCylinderMM :: "jsnum \<Rightarrow> jsnum \<Rightarrow> jsnum" where
  "volumeFromCylinderMM d h =
     (let r = jdiv d (Fin 20) in
      Math_max (Fin 0) (jmul (jmul (jmul Math_PI r) r) (jdiv h (Fin 10))))"

section \<open>Line costing\<close>

record line =
  line_id :: string
  materialKey :: string
  unitPrice :: string
  density :: string
  mode :: string
  qty :: string
  alias_txt :: string
  weightVal :: string
  weightUnit :: string
  shape :: string
  lengthMM :: string
  widthMM :: string
  heightMM :: string
  diameterMM :: string
  depthMM :: string
  volumeCM3 :: string

text \<open>The result of \<open>calcLine\<close>: \<open>{ m, matUnit, effW, qty, cost }\<close>.\<close>

record part =
  p_m :: material
  p_matUnit :: string
  p_effW :: jsnum
  p_qty :: jsnum
  p_cost :: jsnum

text \<open>The volume of the three \<open>if\<close> statements of \<open>calcLine\<close>, which assign in turn.\<close>

definition shape_volume :: "line \<Rightarrow> jsnum" where
  "shape_volume li =
     (let vol0 = Fin 0;
          vol1 = (if shape li = ''box''
                  then volumeFromBoxMM (toNumber (lengthMM li) (Fin 0)) (toNumber (widthMM li) (Fin 0))
                         (toNumber (heightMM li) (Fin 0))
                  else vol0);
          vol2 = (if shape li = ''cylinder''
                  then volumeFromCylinderMM (toNumber (diameterMM li) (Fin 0)) (toNumber (heightMM li) (Fin 0))
                  else vol1)
      in if shape li = ''volume'' then toNumber (volumeCM3 li) (Fin 0) else vol2)"

definition effective_quantity :: "material \<Rightarrow> line \<Rightarrow> jsnum" where
  "effective_quantity m li =
     (if mode li = ''dimensions'' then
        (if key m = ''diamond'' \<and> shape li = ''diamond_round''
         then estimateDiamondCarats (toNumber (diameterMM li) (Fin 0)) (toNumber (depthMM li) (Fin 0))
         else
           let vol = shape_volume li;
               dens = toNumber (density li) DEFAULT_DENSITY
           in if unit m = PerCarat then jdiv (jmul vol dens) (Fin 0.2)
              else if unit m = PerGram then jmul vol dens
              else vol)
      else
        (if unit m = PerGram
         then toGrams (weightVal li) (if weightUnit li = [] then ''g'' else weightUnit li)
         else toNumber (weightVal li) (Fin 0)))"

definition multiplier :: "line \<Rightarrow> jsnum" where
  "multiplier li = Math_max (Fin 1) (Math_floor (toNumber (qty li) (Fin 1)))"

definition calcLine :: "material list \<Rightarrow> line \<Rightarrow> part" where
  "calcLine customMaterials li =
     (let m = findMaterial customMaterials (materialKey li);
          matUnit = unitFor m;
          effW = effective_quantity m li;
          q = multiplier li;
          c = jmul (jmul (toNumber (unitPrice li) (Fin 0)) effW) q
      in \<lparr>p_m = m, p_matUnit = matUnit, p_effW = effW, p_qty = q, p_cost = c\<rparr>)"

text \<open>The line \<open>createLine()\<close> makes: 18k gold, weight mode, every measurement empty.\<close>

definition createLine :: "string \<Rightarrow> line" where
  "createLine i =
     \<lparr>line_id = i, materialKey = ''gold_18k'', unitPrice = '''', density = ''15.6'',
      mode = ''weight'', qty = ''1'', alias_txt = '''', weightVal = '''', weightUnit = ''g'',
      shape = ''box'', lengthMM = '''', widthMM = '''', heightMM = '''',
      diameterMM = '''', depthMM = '''', volumeCM3 = ''''\<rparr>"

text \<open>
  The values the field \<open>weightUnit\<close> of a line takes. \<open>createLine\<close> and the two handlers
  that change the material of a line give it the base unit of the material, which
  \<open>unitFor\<close> makes \<open>g\<close>, \<open>ct\<close> or \<open>cm3\<close>; the selector of the line offers \<open>g\<close>, \<open>dwt\<close> and
  \<open>ozt\<close>. Nothing else writes the field, and lines are not read back from the store.
\<close>

definition weightUnit_values :: "string list" where
  "weightUnit_values = [''g'', ''dwt'', ''ozt'', ''ct'', ''cm3'']"

section \<open>Aggregation and diagnosis\<close>

text \<open>The piece type and the complexity are set from a fixed row of buttons and a fixed
  selector, so they are enumerations.\<close>

datatype piece_type =
  anillo_fino | caja_reloj | eslabon | diamante_redondo | pendiente | pulsera | colgante
  | reloj_completo

datatype complexity_level = baja | media | alta

fun SUGGESTED_HOURS :: "piece_type \<Rightarrow> complexity_level \<Rightarrow> real" where
  "SUGGESTED_HOURS anillo_fino baja = 0.5"
| "SUGGESTED_HOURS anillo_fino media = 1.0"
| "SUGGESTED_HOURS anillo_fino alta = 1.5"
| "SUGGESTED_HOURS caja_reloj baja = 2.0"
| "SUGGESTED_HOURS caja_reloj media = 4.0"
| "SUGGESTED_HOURS caja_reloj alta = 6.0"
| "SUGGESTED_HOURS eslabon baja = 0.8"
| "SUGGESTED_HOURS eslabon media = 1.2"
| "SUGGESTED_HOURS eslabon alta = 2.0"
| "SUGGESTED_HOURS pulsera baja = 1.5"
| "SUGGESTED_HOURS pulsera media = 2.5"
| "SUGGESTED_HOURS pulsera alta = 4.0"
| "SUGGESTED_HOURS colgante baja = 0.8"
| "SUGGESTED_HOURS colgante media = 1.2"
| "SUGGESTED_HOURS colgante alta = 2.0"
| "SUGGESTED_HOURS pendiente baja = 0.8"
| "SUGGESTED_HOURS pendiente media = 1.5"
| "SUGGESTED_HOURS pendiente alta = 2.5"
| "SUGGESTED_HOURS diamante_redondo baja = 1.0"
| "SUGGESTED_HOURS diamante_redondo media = 1.5"
| "SUGGESTED_HOURS diamante_redondo alta = 2.5"
| "SUGGESTED_HOURS reloj_completo baja = 2.5"
| "SUGGESTED_HOURS reloj_completo media = 4.5"
| "SUGGESTED_HOURS reloj_completo alta = 6.5"

text \<open>The inputs of the component: the state the derived figures are computed from.\<close>

record app_state =
  customMaterials :: "material list"
  pieceType :: piece_type
  complexity :: complexity_level
  laborOverride :: string
  lines :: "line list"
  piecePrice :: string

definition suggestedHours :: "app_state \<Rightarrow> jsnum" where
  "suggestedHours st = Fin (SUGGESTED_HOURS (pieceType st) (complexity st))"

definition laborEstimated :: "app_state \<Rightarrow> jsnum" where
  "laborEstimated st = jmul DEFAULT_RATE_EUR_H (suggestedHours st)"

definition laborCost :: "app_state \<Rightarrow> jsnum" where
  "laborCost st = toNumber (laborOverride st) (laborEstimated st)"

definition priceP :: "app_state \<Rightarrow> jsnum" where
  "priceP st = toNumber (piecePrice st) (Fin 0)"

text \<open>
  \<open>totals\<close>: both sums are \<open>reduce\<close> calls from 0, left to right. The second one reads
  \<open>lines[i]\<close> beside \<open>parts[i]\<close>; \<open>parts\<close> is \<open>lines.map(calcLine)\<close>, so the two lists are
  walked in step.
\<close>

definition weight_step :: "material list \<Rightarrow> jsnum \<Rightarrow> part \<times> line \<Rightarrow> jsnum" where
  "weight_step cm a bl =
     (let b = fst bl;
          m = findMaterial cm (materialKey (snd bl));
          matUnit = unitFor m
      in if matUnit = ''g'' then jadd a (jmul (p_effW b) (p_qty b)) else a)"

definition parts :: "app_state \<Rightarrow> part list" where
  "parts st = map (calcLine (customMaterials st)) (lines st)"

definition subtotal :: "app_state \<Rightarrow> jsnum" where
  "subtotal st = foldl (\<lambda>a b. jadd a (p_cost b)) (Fin 0) (parts st)"

definition totalWeightG :: "app_state \<Rightarrow> jsnum" where
  "totalWeightG st = foldl (weight_step (customMaterials st)) (Fin 0) (zip (parts st) (lines st))"

definition totalCost :: "app_state \<Rightarrow> jsnum" where
  "totalCost st = jadd (subtotal st) (laborCost st)"

definition pctMaterials :: "app_state \<Rightarrow> jsnum" where
  "pctMaterials st =
     (if jgt (priceP st) (Fin 0) then jmul (jdiv (subtotal st) (priceP st)) (Fin 100) else Fin 0)"

definition pctTotal :: "app_state \<Rightarrow> jsnum" where
  "pctTotal st =
     (if jgt (priceP st) (Fin 0) then jmul (jdiv (totalCost st) (priceP st)) (Fin 100) else Fin 0)"

definition overPctTotal :: "app_state \<Rightarrow> jsnum" where
  "overPctTotal st =
     (if jgt (totalCost st) (Fin 0)
      then jmul (jdiv (jsub (priceP st) (totalCost st)) (totalCost st)) (Fin 100)
      else Fin 0)"

text \<open>The four labels; the third has an o with acute accent, code unit \<open>0xF3\<close>.\<close>

definition Precio_sospechoso :: string where
  "Precio_sospechoso = ''Precio sospechoso''"

definition Sobrevalorado :: string where
  "Sobrevalorado = ''Sobrevalorado''"

definition Posible_sobrevaloracion :: string where
  "Posible_sobrevaloracion = ''Posible sobrevaloraci'' @ [CHR 0xF3] @ ''n''"

definition Precio_razonable :: string where
  "Precio_razonable = ''Precio razonable''"

text \<open>The effect that sets \<open>diagnosis\<close> from \<open>priceP\<close>, \<open>totalCost\<close> and \<open>overPctTotal\<close>.\<close>

definition diagnosis_effect :: "jsnum \<Rightarrow> jsnum \<Rightarrow> jsnum \<Rightarrow> string" where
  "diagnosis_effect p c ov =
     (if \<not> truthy p \<or> jle c (Fin 0) then ''''
      else if jlt p c then Precio_sospechoso
      else if jgt ov (Fin 40) then Sobrevalorado
      else if jgt ov (Fin 20) then Posible_sobrevaloracion
      else Precio_razonable)"

definition diagnosis :: "app_state \<Rightarrow> string" where
  "diagnosis st = diagnosis_effect (priceP st) (totalCost st) (overPctTotal st)"

text \<open>The state the component starts in: no custom material, a fine ring of medium
  complexity, one fresh line, and no price or labour override entered.\<close>

definition initial_state :: app_state where
  "initial_state =
     \<lparr>customMaterials = [], pieceType = anillo_fino, complexity = media, laborOverride = [],
      lines = [createLine ''line1''], piecePrice = []\<rparr>"

section \<open>History\<close>

text \<open>\<open>saveHistory\<close>: \<open>[entry, ...history].slice(0, 500)\<close> becomes the history. The write
  to the local store that follows is caught when it fails and changes nothing here.\<close>

definition saveHistory :: "'e \<Rightarrow> 'e list \<Rightarrow> 'e list" where
  "saveHistory entry history = take 500 (entry # history)"

text \<open>A run of saves, each on the history the one before it left.\<close>

definition save_all :: "'e list \<Rightarrow> 'e list \<Rightarrow> 'e list" where
  "save_all history entries = foldl (\<lambda>h e. saveHistory e h) history entries"

section \<open>Alias resolver\<close>

text \<open>
  The five patterns use literal characters, \<open>\s\<close>, \<open>^\<close>, \<open>\b\<close>, grouping, alternatives,
  \<open>?\<close> and \<open>*\<close>, under the flag \<open>i\<close>. \<open>rmatch r s i\<close> lists the positions where a match of
  \<open>r\<close> that starts at position \<open>i\<close> of \<open>s\<close> can end. The patterns have no back-reference
  or look-ahead, so whether some match exists does not depend on the order in which a
  backtracking matcher tries the alternatives.
\<close>

datatype regex =
  Eps | Chr char | WhiteSp | Bol | WordB
  | Seq regex regex | Alt regex regex | Opt regex | Star regex

definition isWordChar :: "char \<Rightarrow> bool" where
  "isWordChar c =
     (let n = (of_char c :: nat)
      in (48 \<le> n \<and> n \<le> 57) \<or> (65 \<le> n \<and> n \<le> 90) \<or> (97 \<le> n \<and> n \<le> 122) \<or> n = 95)"

text \<open>Case folding under the flag \<open>i\<close>: an ASCII lower-case letter is compared as its
  upper-case letter; a code unit from 128 up never folds to an ASCII one.\<close>

definition canonicalize :: "char \<Rightarrow> char" where
  "canonicalize c =
     (let n = (of_char c :: nat) in if 97 \<le> n \<and> n \<le> 122 then char_of (n - 32) else c)"

definition word_at :: "string \<Rightarrow> nat \<Rightarrow> bool" where
  "word_at s i = (i < length s \<and> isWordChar (s ! i))"

text \<open>\<open>\b\<close> at position \<open>i\<close>: exactly one of the characters before and after is a word
  character.\<close>

definition word_boundary :: "string \<Rightarrow> nat \<Rightarrow> bool" where
  "word_boundary s i = ((0 < i \<and> word_at s (i - 1)) \<noteq> word_at s i)"

text \<open>The end positions after any number of rounds of \<open>f\<close>, each round moving forward (an
  empty round of a starred group is not taken).\<close>

fun star_iter :: "(nat \<Rightarrow> nat list) \<Rightarrow> nat \<Rightarrow> nat list \<Rightarrow> nat list" where
  "star_iter f 0 ps = ps"
| "star_iter f (Suc n) ps =
     ps @ star_iter f n (concat (map (\<lambda>p. filter (\<lambda>q. p < q) (f p)) ps))"

fun rmatch :: "regex \<Rightarrow> string \<Rightarrow> nat \<Rightarrow> nat list" where
  "rmatch Eps s i = [i]"
| "rmatch (Chr c) s i =
     (if i < length s \<and> canonicalize (s ! i) = canonicalize c then [Suc i] else [])"
| "rmatch WhiteSp s i = (if i < length s \<and> isWhiteSpace (s ! i) then [Suc i] else [])"
| "rmatch Bol s i = (if i = 0 then [i] else [])"
| "rmatch WordB s i = (if word_boundary s i then [i] else [])"
| "rmatch (Seq a b) s i = concat (map (\<lambda>j. rmatch b s j) (rmatch a s i))"
| "rmatch (Alt a b) s i = rmatch a s i @ rmatch b s i"
| "rmatch (Opt a) s i = rmatch a s i @ [i]"
| "rmatch (Star a) s i = star_iter (\<lambda>j. rmatch a s j) (length s) [i]"

text \<open>\<open>pattern.test(s)\<close>: a match may start at any position.\<close>

definition regex_test :: "regex \<Rightarrow> string \<Rightarrow> bool" where
  "regex_test r s = list_ex (\<lambda>i. rmatch r s i \<noteq> []) [0..<Suc (length s)]"

fun lit :: "string \<Rightarrow> regex" where
  "lit [] = Eps"
| "lit (c # cs) = Seq (Chr c) (lit cs)"

record equivalence_rule =
  rule_test :: regex
  rule_key :: string

definition EQUIVALENCE_RULES :: "equivalence_rule list" where
  "EQUIVALENCE_RULES =
    [\<lparr>rule_test =
        Seq (Alt Bol WordB)
          (Seq (Alt (Seq (lit ''750'') (Opt (lit ''/1000'')))
               (Alt (Seq (lit ''18'') (Seq (Opt WhiteSp) (Seq (lit ''k'') (Opt (lit ''arat'')))))
                    (Seq (lit ''oro'') (Seq (Star WhiteSp) (lit ''18k'')))))
            WordB),
      rule_key = ''gold_18k''\<rparr>,
     \<lparr>rule_test =
        Seq (Alt Bol WordB)
          (Seq (Alt (Seq (lit ''585'') (Opt (lit ''/1000'')))
               (Alt (Seq (lit ''14'') (Seq (Opt WhiteSp) (Seq (lit ''k'') (Opt (lit ''arat'')))))
                    (Seq (lit ''oro'') (Seq (Star WhiteSp) (lit ''14k'')))))
            WordB),
      rule_key = ''gold_14k''\<rparr>,
     \<lparr>rule_test =
        Seq (Alt Bol WordB)
          (Seq (Alt (Seq (lit ''999'') (Opt (lit ''/1000'')))
               (Alt (Seq (lit ''24'') (Seq (Opt WhiteSp) (Seq (lit ''k'') (Opt (lit ''arat'')))))
                    (Seq (lit ''oro'') (Seq (Star WhiteSp) (lit ''24k'')))))
            WordB),
      rule_key = ''gold_24k''\<rparr>,
     \<lparr>rule_test =
        Seq (Alt Bol WordB)
          (Seq (Alt (Seq (lit ''925'') (Opt (lit ''/1000'')))
               (Alt (Seq (lit ''plata'') (Seq (Star WhiteSp) (Seq (lit ''de'')
                       (Seq (Star WhiteSp) (lit ''ley'')))))
                    (lit ''sterling'')))
            WordB),
      rule_key = ''silver_925''\<rparr>,
     \<lparr>rule_test =
        Seq (Alt Bol WordB)
          (Seq (Alt (Seq (lit ''950'') (Seq (Opt (lit ''/1000'')) (Seq (Star WhiteSp) (lit ''pt''))))
               (Alt (Seq (lit ''platino'') (Seq (Star WhiteSp) (lit ''950'')))
                    (Seq (lit ''pt'') (Seq (Star WhiteSp) (lit ''950'')))))
            WordB),
      rule_key = ''platinum_950''\<rparr>]"

definition trim :: "string \<Rightarrow> string" where
  "trim s = rev (dropWhile isWhiteSpace (rev (dropWhile isWhiteSpace s)))"

text \<open>The loop over the rules: the key of the first rule whose pattern matches.\<close>

fun first_match :: "equivalence_rule list \<Rightarrow> string \<Rightarrow> string option" where
  "first_match [] s = None"
| "first_match (r # rs) s = (if regex_test (rule_test r) s then Some (rule_key r) else first_match rs s)"

definition detectMaterialFromAlias :: "string \<Rightarrow> string option" where
  "detectMaterialFromAlias txt =
     (let s = trim txt in if s = [] then None else first_match EQUIVALENCE_RULES s)"

section \<open>Predicates used in the statements and proofs\<close>

text \<open>A finite value that neither overflows nor underflows, and a number that is not
  negative: zero or more, \<open>Infinity\<close>, or NaN.\<close>

definition in_range :: "real \<Rightarrow> bool" where
  "in_range x = (\<bar>x\<bar> < overflow_threshold \<and> (x = 0 \<or> underflow_threshold < \<bar>x\<bar>))"

definition nonneg_or_nan :: "jsnum \<Rightarrow> bool" where
  "nonneg_or_nan x = (x = NaN \<or> jle (Fin 0) x)"

text \<open>The numbers the entries \<open>1e308\<close> and \<open>1e-200\<close> are coerced to.\<close>

definition e308 :: real where
  "e308 = 10 ^ 308"

definition em200 :: real where
  "em200 = 1 / 10 ^ 200"

section \<open>Facts about the number model\<close>

lemma overflow_threshold_pos: "0 < overflow_threshold"
  by (simp add: overflow_threshold_def)

lemma underflow_threshold_pos: "0 < underflow_threshold"
  by (simp add: underflow_threshold_def)

lemma underflow_threshold_small: "underflow_threshold < 1 / 10 ^ 300"
  by (simp add: underflow_threshold_def field_simps)

lemma rnd_in_range: "in_range x \<Longrightarrow> rnd x = Fin x"
  using underflow_threshold_pos by (auto simp: rnd_def in_range_def)

text \<open>A finite result is zero or lies between the two thresholds.\<close>

lemma rnd_Fin_D: "rnd x = Fin y \<Longrightarrow> in_range y"
  using overflow_threshold_pos by (auto simp: rnd_def in_range_def split: if_splits)

lemma in_range_small:
  "\<bar>x\<bar> \<le> 10 ^ 300 \<Longrightarrow> x = 0 \<or> 1 / 10 ^ 300 \<le> \<bar>x\<bar> \<Longrightarrow> in_range x"
proof -
  assume up: "\<bar>x\<bar> \<le> 10 ^ 300" and low: "x = 0 \<or> 1 / 10 ^ 300 \<le> \<bar>x\<bar>"
  have "(10::real) ^ 300 < overflow_threshold"
    unfolding overflow_threshold_def by simp
  with up have "\<bar>x\<bar> < overflow_threshold"
    by simp
  moreover from low underflow_threshold_small have "x = 0 \<or> underflow_threshold < \<bar>x\<bar>"
    by auto
  ultimately show ?thesis
    by (simp add: in_range_def)
qed

text \<open>The numbers of the examples are far from both thresholds.\<close>

lemma rnd_moderate:
  "\<bar>x\<bar> \<le> 1000000000000000 \<and> (x = 0 \<or> 1 / 1000000000000000 \<le> \<bar>x\<bar>) \<Longrightarrow> rnd x = Fin x"
proof (rule rnd_in_range[OF in_range_small])
  assume a: "\<bar>x\<bar> \<le> 1000000000000000 \<and> (x = 0 \<or> 1 / 1000000000000000 \<le> \<bar>x\<bar>)"
  then show "\<bar>x\<bar> \<le> 10 ^ 300"
    by simp
  have "(1::real) / 10 ^ 300 \<le> 1 / 1000000000000000"
    by simp
  with a show "x = 0 \<or> 1 / 10 ^ 300 \<le> \<bar>x\<bar>"
    by auto
qed

lemma e308_in_range: "in_range e308"
proof -
  have "underflow_threshold < 1"
    using underflow_threshold_small by simp
  moreover have "1 \<le> e308"
    by (simp add: e308_def)
  ultimately have "underflow_threshold < \<bar>e308\<bar>"
    by simp
  moreover have "\<bar>e308\<bar> < overflow_threshold"
    by (simp add: e308_def overflow_threshold_def)
  ultimately show ?thesis
    by (simp add: in_range_def)
qed

lemma e308_overflow: "overflow_threshold \<le> 10 * e308"
  by (simp add: e308_def overflow_threshold_def)

lemma e308_ge_1000: "1000 \<le> e308"
proof -
  have "(10::real) ^ 3 \<le> 10 ^ 308"
    by (rule power_increasing) simp_all
  then show ?thesis
    by (simp add: e308_def)
qed

lemma rnd_overflow: "10 * e308 \<le> x \<Longrightarrow> rnd x = PInf"
  using e308_overflow by (simp add: rnd_def)

lemma rnd_underflow: "\<bar>x\<bar> \<le> underflow_threshold \<Longrightarrow> rnd x = Fin 0"
  using overflow_threshold_pos underflow_threshold_small
  by (auto simp: rnd_def overflow_threshold_def)

lemma em200_in_range: "in_range em200"
  by (simp add: in_range_def em200_def overflow_threshold_def underflow_threshold_def field_simps)

lemma em200_square: "\<bar>- (em200 * em200)\<bar> \<le> underflow_threshold"
  by (simp add: em200_def underflow_threshold_def field_simps)

lemma rnd_below_e308: "1 \<le> x \<Longrightarrow> x \<le> e308 \<Longrightarrow> rnd x = Fin x"
proof (rule rnd_in_range)
  assume x: "1 \<le> x" "x \<le> e308"
  have "underflow_threshold < 1"
    using underflow_threshold_small by simp
  with x e308_in_range show "in_range x"
    by (simp add: in_range_def)
qed

text \<open>Rounding keeps the sign: a result that is not negative stays so, and one that is
  not positive stays so (it may become zero).\<close>

lemma rnd_nonneg: "0 \<le> x \<Longrightarrow> jle (Fin 0) (rnd x)"
  using overflow_threshold_pos by (auto simp: rnd_def)

lemma rnd_nonpos: "x \<le> 0 \<Longrightarrow> jle (rnd x) (Fin 0)"
  using overflow_threshold_pos by (auto simp: rnd_def)

lemma toNumber_cases: "toNumber v d = d \<or> (\<exists>x. toNumber v d = Fin x \<and> parseFloat v = Fin x)"
  by (cases "parseFloat v") (auto simp: toNumber_def Let_def)

lemma toNumber_Fin: "\<exists>x. toNumber v (Fin d) = Fin x"
  using toNumber_cases[of v "Fin d"] by auto

lemma toNumber_case:
  "toNumber v d = (case parseFloat v of Fin x \<Rightarrow> Fin x | PInf \<Rightarrow> d | NInf \<Rightarrow> d | NaN \<Rightarrow> d)"
  by (cases "parseFloat v") (simp_all add: toNumber_def)

lemma toNumber_unparsable: "\<not> isFinite (parseFloat v) \<Longrightarrow> toNumber v d = d"
  by (simp add: toNumber_def)

lemma toNumber_parsed: "parseFloat v = Fin x \<Longrightarrow> toNumber v d = Fin x"
  by (simp add: toNumber_def)

lemma nonneg_or_nan_cases:
  "nonneg_or_nan x = (x = NaN \<or> x = PInf \<or> (\<exists>a. x = Fin a \<and> 0 \<le> a))"
  by (cases x) (auto simp: nonneg_or_nan_def)

lemma jmul_nonneg: "nonneg_or_nan a \<Longrightarrow> nonneg_or_nan b \<Longrightarrow> nonneg_or_nan (jmul a b)"
  unfolding nonneg_or_nan_cases
  apply (elim disjE exE conjE; simp add: signed_inf_def)
  using rnd_nonneg nonneg_or_nan_cases nonneg_or_nan_def
  apply (metis mult_nonneg_nonneg)
  done

lemma jdiv_nonneg: "nonneg_or_nan a \<Longrightarrow> 0 < c \<Longrightarrow> nonneg_or_nan (jdiv a (Fin c))"
  unfolding nonneg_or_nan_cases
  apply (elim disjE exE conjE; simp add: signed_inf_def)
  using rnd_nonneg nonneg_or_nan_cases nonneg_or_nan_def
  apply (metis divide_nonneg_pos)
  done

lemma Math_max_nonneg: "nonneg_or_nan (Math_max (Fin 0) x)"
  by (cases x) (auto simp: nonneg_or_nan_def)

lemma Math_max_one_int: "Math_max (Fin 1) (Fin (of_int k)) = Fin (of_int (max 1 k))"
  by (simp add: max_def)

text \<open>The definitions a concrete input is evaluated with, and what the entries of the
  examples are coerced to.\<close>

lemmas parse_eval =
  toNumber_case parseFloat_def unsigned_literal_def isWhiteSpace_def isDigit_def
  decimal_value_def digits_val_def digit_val_def scale10_def exponent_digits_def
  rnd_moderate

lemmas line_eval =
  calcLine_def effective_quantity_def multiplier_def shape_volume_def toGrams_def
  estimateDiamondCarats_def volumeFromBoxMM_def volumeFromCylinderMM_def
  findMaterial_def allMaterials_def MATERIALS_def mk_material_def unitFor_def
  WEIGHT_UNITS_get_def WEIGHT_UNITS_def Object_prototype_names_def js_or_def
  DEFAULT_DENSITY_def createLine_def signed_inf_def rnd_moderate Let_def

lemma toNumber_examples:
  "toNumber [] d = d" "toNumber ''abc'' d = d" "toNumber ''x'' d = d"
  "toNumber ''0'' d = Fin 0" "toNumber ''1'' d = Fin 1" "toNumber ''2'' d = Fin 2"
  "toNumber ''3'' d = Fin 3" "toNumber ''4'' d = Fin 4" "toNumber ''5'' d = Fin 5"
  "toNumber ''10'' d = Fin 10" "toNumber ''-3'' d = Fin (- 3)" "toNumber ''-5'' d = Fin (- 5)"
  "toNumber ''-10'' d = Fin (- 10)" "toNumber ''90'' d = Fin 90" "toNumber ''100'' d = Fin 100"
  "toNumber ''0.5'' d = Fin 0.5" "toNumber ''2.7'' d = Fin 2.7" "toNumber ''6.5'' d = Fin 6.5"
  "toNumber ''15.6'' d = Fin 15.6"
  by (simp_all add: parse_eval)

lemma toNumber_1e308: "toNumber ''1e308'' d = Fin e308"
proof -
  have "scale10 1 308 = e308"
    by (simp only: scale10_def e308_def nat_numeral mult_1 zero_le_numeral if_True)
  moreover have "parseFloat ''1e308'' = rnd (scale10 1 308)"
    by (simp add: parseFloat_def unsigned_literal_def isWhiteSpace_def isDigit_def
        decimal_value_def digits_val_def digit_val_def exponent_digits_def)
  moreover have "rnd e308 = Fin e308"
    by (rule rnd_in_range[OF e308_in_range])
  ultimately show ?thesis
    by (simp add: toNumber_case)
qed

lemma toNumber_1em200:
  "toNumber ''1e-200'' d = Fin em200" "toNumber ''-1e-200'' d = Fin (- em200)"
proof -
  have "scale10 1 (- 200) = em200"
    by (simp add: scale10_def em200_def)
  moreover have "parseFloat ''1e-200'' = rnd (scale10 1 (- 200))"
    "parseFloat ''-1e-200'' = jneg (rnd (scale10 1 (- 200)))"
    by (simp_all add: parseFloat_def unsigned_literal_def isWhiteSpace_def isDigit_def
        decimal_value_def digits_val_def digit_val_def exponent_digits_def)
  moreover have "rnd em200 = Fin em200"
    by (rule rnd_in_range[OF em200_in_range])
  ultimately show "toNumber ''1e-200'' d = Fin em200" "toNumber ''-1e-200'' d = Fin (- em200)"
    by (simp_all add: toNumber_case)
qed

lemma toNumber_prices:
  "toNumber ''900'' d = Fin 900" "toNumber ''1000'' d = Fin 1000" "toNumber ''1100'' d = Fin 1100"
  "toNumber ''1200'' d = Fin 1200" "toNumber ''1300'' d = Fin 1300" "toNumber ''1400'' d = Fin 1400"
  "toNumber ''2000'' d = Fin 2000"
  by (simp_all add: parse_eval)

text \<open>The factors of the three units of the table.\<close>

lemma weight_factor_table:
  "ToNumber (js_or (WEIGHT_UNITS_get ''g'') (JNumber (Fin 1))) = Fin 1"
  "ToNumber (js_or (WEIGHT_UNITS_get ''dwt'') (JNumber (Fin 1))) = Fin 1.555"
  "ToNumber (js_or (WEIGHT_UNITS_get ''ozt'') (JNumber (Fin 1))) = Fin 31.103"
  by (simp_all add: js_or_def WEIGHT_UNITS_get_def WEIGHT_UNITS_def)

lemma toGrams_overflow: "toGrams ''1e308'' ''ozt'' = PInf"
proof -
  have "0 \<le> e308"
    using e308_ge_1000 by simp
  then have "10 * e308 \<le> e308 * 31.103"
    by simp
  then show ?thesis
    by (simp add: toGrams_def weight_factor_table toNumber_1e308 rnd_overflow)
qed

text \<open>The quoted price is always a finite number.\<close>

lemma priceP_Fin: "\<exists>p. priceP st = Fin p"
  unfolding priceP_def by (rule toNumber_Fin)

lemma priceP_isFinite: "isFinite (priceP st)"
  using priceP_Fin[of st] by auto

text \<open>The figures of the initial state once a labour override and a price are entered:
  the fresh line costs nothing, and the estimate is one hour at 60.\<close>

lemma initial_state_figures:
  "subtotal (initial_state\<lparr>laborOverride := l, piecePrice := p\<rparr>) = Fin 0"
  "laborCost (initial_state\<lparr>laborOverride := l, piecePrice := p\<rparr>) = toNumber l (Fin 60)"
  "priceP (initial_state\<lparr>laborOverride := l, piecePrice := p\<rparr>) = toNumber p (Fin 0)"
  by (simp_all add: initial_state_def subtotal_def parts_def laborCost_def laborEstimated_def
      suggestedHours_def priceP_def DEFAULT_RATE_EUR_H_def line_eval toNumber_examples Let_def)

lemma initial_state_figures':
  "subtotal (initial_state\<lparr>piecePrice := p\<rparr>) = Fin 0"
  "laborCost (initial_state\<lparr>piecePrice := p\<rparr>) = Fin 60"
  "priceP (initial_state\<lparr>piecePrice := p\<rparr>) = toNumber p (Fin 0)"
  "subtotal initial_state = Fin 0"
  "laborCost initial_state = Fin 60"
  "priceP initial_state = Fin 0"
  by (simp_all add: initial_state_def subtotal_def parts_def laborCost_def laborEstimated_def
      suggestedHours_def priceP_def DEFAULT_RATE_EUR_H_def line_eval toNumber_examples Let_def)

section \<open>Line costing\<close>

subsection \<open>The geometry assertions of the source\<close>

text \<open>The component checks its estimators once per session: a 10 mm cube is 1 cm3, a
  cylinder of 10 mm by 10 mm is a quarter of \<open>Math.PI\<close>, and a round diamond of 6.5 mm by
  4 mm is about 1.0309 ct. The embedding agrees.\<close>

lemma source_assertions:
  "volumeFromBoxMM (Fin 10) (Fin 10) (Fin 10) = Fin 1"
  "volumeFromCylinderMM (Fin 10) (Fin 10) = jmul Math_PI (Fin 0.25)"
  "estimateDiamondCarats (Fin 6.5) (Fin 4) = Fin 1.0309"
  by (simp_all add: volumeFromBoxMM_def volumeFromCylinderMM_def estimateDiamondCarats_def
      Math_PI_def rnd_moderate)

subsection \<open>The multiplier\<close>

lemma multiplier_value:
  "\<exists>x. toNumber (qty li) (Fin 1) = Fin x \<and> multiplier li = Fin (of_int (max 1 \<lfloor>x\<rfloor>))"
proof -
  obtain x where x: "toNumber (qty li) (Fin 1) = Fin x"
    using toNumber_Fin by blast
  have "Math_max (Fin 1) (Math_floor (Fin x)) = Fin (of_int (max 1 \<lfloor>x\<rfloor>))"
    using Math_max_one_int[of "\<lfloor>x\<rfloor>"] by simp
  with x show ?thesis
    by (simp add: multiplier_def)
qed

text \<open>
  C5. For every raw quantity string the multiplier of the line is
  \<open>max(1, floor(toNumber(qty, 1)))\<close>: the coercion always gives a finite number \<open>x\<close>, and
  the multiplier is the integer \<open>max 1 \<lfloor>x\<rfloor>\<close>, which is at least 1.
\<close>

theorem multiplier_at_least_one:
  "p_qty (calcLine cm li) = Math_max (Fin 1) (Math_floor (toNumber (qty li) (Fin 1)))
   \<and> (\<exists>x. toNumber (qty li) (Fin 1) = Fin x
          \<and> p_qty (calcLine cm li) = Fin (of_int (max 1 \<lfloor>x\<rfloor>))
          \<and> (1::int) \<le> max 1 \<lfloor>x\<rfloor>)"
proof -
  have q: "p_qty (calcLine cm li) = multiplier li"
    by (simp add: calcLine_def Let_def)
  obtain x where "toNumber (qty li) (Fin 1) = Fin x"
    and "multiplier li = Fin (of_int (max 1 \<lfloor>x\<rfloor>))"
    using multiplier_value by blast
  with q show ?thesis
    by (auto simp: multiplier_def)
qed

text \<open>The quantities \<open>0.5\<close>, \<open>0\<close>, \<open>-3\<close> and \<open>abc\<close> give the multiplier 1, and \<open>2.7\<close> gives 2.\<close>

theorem multiplier_at_least_one_witness:
  "p_qty (calcLine [] ((createLine ''a'')\<lparr>qty := ''0.5''\<rparr>)) = Fin 1
   \<and> p_qty (calcLine [] ((createLine ''a'')\<lparr>qty := ''0''\<rparr>)) = Fin 1
   \<and> p_qty (calcLine [] ((createLine ''a'')\<lparr>qty := ''-3''\<rparr>)) = Fin 1
   \<and> p_qty (calcLine [] ((createLine ''a'')\<lparr>qty := ''abc''\<rparr>)) = Fin 1
   \<and> p_qty (calcLine [] ((createLine ''a'')\<lparr>qty := ''2.7''\<rparr>)) = Fin 2"
  using multiplier_at_least_one[of "[]" "(createLine ''a'')\<lparr>qty := ''0.5''\<rparr>"]
    multiplier_at_least_one[of "[]" "(createLine ''a'')\<lparr>qty := ''0''\<rparr>"]
    multiplier_at_least_one[of "[]" "(createLine ''a'')\<lparr>qty := ''-3''\<rparr>"]
    multiplier_at_least_one[of "[]" "(createLine ''a'')\<lparr>qty := ''abc''\<rparr>"]
    multiplier_at_least_one[of "[]" "(createLine ''a'')\<lparr>qty := ''2.7''\<rparr>"]
  by (simp add: createLine_def toNumber_examples)

subsection \<open>Sign of the effective quantity and of the cost\<close>

lemma weight_factor_nonneg:
  "nonneg_or_nan (ToNumber (js_or (WEIGHT_UNITS_get u) (JNumber (Fin 1))))"
  by (auto simp: nonneg_or_nan_def js_or_def WEIGHT_UNITS_get_def WEIGHT_UNITS_def)

lemma toGrams_nonneg:
  "jle (Fin 0) (toNumber w (Fin 0)) \<Longrightarrow> nonneg_or_nan (toGrams w u)"
  unfolding toGrams_def
  by (rule jmul_nonneg[OF _ weight_factor_nonneg]) (simp add: nonneg_or_nan_def)

lemma clamped_volume_nonneg:
  "nonneg_or_nan (volumeFromBoxMM l w h)" "nonneg_or_nan (volumeFromCylinderMM d h)"
  "nonneg_or_nan (estimateDiamondCarats d h)"
  by (simp_all add: volumeFromBoxMM_def volumeFromCylinderMM_def estimateDiamondCarats_def
      Let_def Math_max_nonneg)

lemma shape_volume_nonneg:
  assumes "shape li = ''volume'' \<longrightarrow> jle (Fin 0) (toNumber (volumeCM3 li) (Fin 0))"
  shows "nonneg_or_nan (shape_volume li)"
proof -
  have "nonneg_or_nan (Fin 0)"
    by (simp add: nonneg_or_nan_def)
  moreover have "shape li = ''volume'' \<longrightarrow> nonneg_or_nan (toNumber (volumeCM3 li) (Fin 0))"
    using assms by (simp add: nonneg_or_nan_def)
  ultimately show ?thesis
    by (simp add: shape_volume_def Let_def clamped_volume_nonneg)
qed

lemma effective_quantity_nonneg:
  assumes w: "mode li \<noteq> ''dimensions'' \<longrightarrow> jle (Fin 0) (toNumber (weightVal li) (Fin 0))"
    and d: "mode li = ''dimensions'' \<longrightarrow> jle (Fin 0) (toNumber (density li) DEFAULT_DENSITY)"
    and v: "mode li = ''dimensions'' \<and> shape li = ''volume''
              \<longrightarrow> jle (Fin 0) (toNumber (volumeCM3 li) (Fin 0))"
  shows "nonneg_or_nan (effective_quantity m li)"
proof (cases "mode li = ''dimensions''")
  case True
  have vol: "nonneg_or_nan (shape_volume li)"
    using v True by (intro shape_volume_nonneg) simp
  have dens: "nonneg_or_nan (toNumber (density li) DEFAULT_DENSITY)"
    using d True by (simp add: nonneg_or_nan_def)
  have vd: "nonneg_or_nan (jmul (shape_volume li) (toNumber (density li) DEFAULT_DENSITY))"
    by (rule jmul_nonneg[OF vol dens])
  have ct: "nonneg_or_nan (jdiv (jmul (shape_volume li) (toNumber (density li) DEFAULT_DENSITY)) (Fin 0.2))"
    by (rule jdiv_nonneg[OF vd]) simp
  show ?thesis
    using True vol vd ct clamped_volume_nonneg(3)
    by (simp add: effective_quantity_def Let_def)
next
  case False
  then have le: "jle (Fin 0) (toNumber (weightVal li) (Fin 0))"
    using w by simp
  then have "nonneg_or_nan (toNumber (weightVal li) (Fin 0))"
    by (simp add: nonneg_or_nan_def)
  then show ?thesis
    using False toGrams_nonneg[OF le] by (simp add: effective_quantity_def)
qed

lemma multiplier_nonneg: "nonneg_or_nan (multiplier li)"
proof -
  obtain x where "toNumber (qty li) (Fin 1) = Fin x"
    using toNumber_Fin by blast
  then show ?thesis
    by (simp add: multiplier_def nonneg_or_nan_def)
qed

text \<open>
  The claim C2 as stated, that the effective quantity is \<open>>= 0\<close> whatever the raw inputs,
  fails on a negative weight entry: the weight path multiplies the coerced entry by the
  unit factor and nothing clamps it.
\<close>

theorem negative_weight_counterexample:
  "p_effW (calcLine [] ((createLine ''a'')\<lparr>weightVal := ''-5''\<rparr>)) = Fin (- 5)
   \<and> \<not> jge (p_effW (calcLine [] ((createLine ''a'')\<lparr>weightVal := ''-5''\<rparr>))) (Fin 0)"
  by (simp add: line_eval toNumber_examples jge_def)

text \<open>
  C2, amended. The box, cylinder and diamond formulas clamp at 0 whatever their inputs;
  the weight entry, the density and the volume entry of the shape \<open>volume\<close> are used as
  entered. So when the coerced weight entry (weight mode), the coerced density (dimensions
  mode) and the coerced volume entry (dimensions mode, shape \<open>volume\<close>) are \<open>>= 0\<close>, the
  effective quantity is never negative: it is \<open>>= 0\<close>, or NaN when a product overflows. The
  same holds for the line cost when the coerced unit price is \<open>>= 0\<close> as well.
\<close>

theorem quantity_and_cost_never_negative:
  assumes "mode li \<noteq> ''dimensions'' \<longrightarrow> jle (Fin 0) (toNumber (weightVal li) (Fin 0))"
    and "mode li = ''dimensions'' \<longrightarrow> jle (Fin 0) (toNumber (density li) DEFAULT_DENSITY)"
    and "mode li = ''dimensions'' \<and> shape li = ''volume''
           \<longrightarrow> jle (Fin 0) (toNumber (volumeCM3 li) (Fin 0))"
  shows "(p_effW (calcLine cm li) = NaN \<or> jle (Fin 0) (p_effW (calcLine cm li)))
    \<and> (jle (Fin 0) (toNumber (unitPrice li) (Fin 0))
         \<longrightarrow> p_cost (calcLine cm li) = NaN \<or> jle (Fin 0) (p_cost (calcLine cm li)))"
proof -
  let ?m = "findMaterial cm (materialKey li)"
  have e: "nonneg_or_nan (effective_quantity ?m li)"
    by (rule effective_quantity_nonneg[OF assms])
  have c: "nonneg_or_nan (jmul (jmul (toNumber (unitPrice li) (Fin 0)) (effective_quantity ?m li)) (multiplier li))"
    if "jle (Fin 0) (toNumber (unitPrice li) (Fin 0))"
  proof -
    from that have "nonneg_or_nan (toNumber (unitPrice li) (Fin 0))"
      by (simp add: nonneg_or_nan_def)
    then show ?thesis
      by (intro jmul_nonneg e multiplier_nonneg)
  qed
  show ?thesis
    using e c by (simp add: calcLine_def Let_def nonneg_or_nan_def)
qed

text \<open>Two grams of 18k gold at 10 a gram, three units: quantity 2 and cost 60. A volume
  entry of 2 cm3 at the density 15.6 and 10 a gram: quantity 31.2 and cost 312. A box
  with the length \<open>-10\<close>: the formula clamps the negative product, the quantity is 0.\<close>

theorem quantity_and_cost_never_negative_witness:
  "p_effW (calcLine [] ((createLine ''a'')\<lparr>unitPrice := ''10'', weightVal := ''2'', qty := ''3''\<rparr>)) = Fin 2
   \<and> p_cost (calcLine [] ((createLine ''a'')\<lparr>unitPrice := ''10'', weightVal := ''2'', qty := ''3''\<rparr>)) = Fin 60
   \<and> p_effW (calcLine [] ((createLine ''a'')\<lparr>unitPrice := ''10'', mode := ''dimensions'',
        shape := ''volume'', volumeCM3 := ''2''\<rparr>)) = Fin 31.2
   \<and> p_cost (calcLine [] ((createLine ''a'')\<lparr>unitPrice := ''10'', mode := ''dimensions'',
        shape := ''volume'', volumeCM3 := ''2''\<rparr>)) = Fin 312
   \<and> p_effW (calcLine [] ((createLine ''a'')\<lparr>mode := ''dimensions'', lengthMM := ''-10'',
        widthMM := ''10'', heightMM := ''10''\<rparr>)) = Fin 0"
  using quantity_and_cost_never_negative[of
      "(createLine ''a'')\<lparr>unitPrice := ''10'', weightVal := ''2'', qty := ''3''\<rparr>" "[]"]
    quantity_and_cost_never_negative[of
      "(createLine ''a'')\<lparr>unitPrice := ''10'', mode := ''dimensions'', shape := ''volume'',
         volumeCM3 := ''2''\<rparr>" "[]"]
    quantity_and_cost_never_negative[of
      "(createLine ''a'')\<lparr>mode := ''dimensions'', lengthMM := ''-10'', widthMM := ''10'',
         heightMM := ''10''\<rparr>" "[]"]
  by (simp add: line_eval toNumber_examples)

text \<open>NaN does occur: in the box formula \<open>1e307 * 1e307\<close> overflows to \<open>Infinity\<close>, its
  product with 0 is NaN, and \<open>Math.max(0, NaN)\<close> is NaN.\<close>

lemma box_volume_overflow:
  "volumeFromBoxMM (toNumber ''1e308'' (Fin 0)) (toNumber ''1e308'' (Fin 0)) (Fin 0) = NaN"
proof -
  have pos: "0 \<le> e308"
    using e308_ge_1000 by simp
  have a: "jdiv (Fin e308) (Fin 10) = Fin (e308 / 10)"
    using e308_ge_1000 by (simp add: rnd_below_e308)
  have "10 * e308 \<le> e308 / 10 * (e308 / 10)"
  proof -
    have "10 * e308 = e308 / 10 * 100"
      by simp
    also have "\<dots> \<le> e308 / 10 * (e308 / 10)"
      using pos e308_ge_1000 by (intro mult_left_mono) simp_all
    finally show ?thesis .
  qed
  then have b: "jmul (Fin (e308 / 10)) (Fin (e308 / 10)) = PInf"
    by (simp add: rnd_overflow)
  have c: "jdiv (Fin 0) (Fin 10) = Fin 0"
    by (simp add: rnd_moderate)
  have d: "jmul PInf (Fin 0) = NaN"
    by (simp add: signed_inf_def)
  show ?thesis
    unfolding volumeFromBoxMM_def toNumber_1e308
    by (simp only: a b c d Math_max.simps)
qed

lemma box_volume_overflow_example:
  "p_effW (calcLine [] ((createLine ''a'')\<lparr>mode := ''dimensions'', lengthMM := ''1e308'',
      widthMM := ''1e308'', heightMM := ''0''\<rparr>)) = NaN"
  by (simp add: calcLine_def effective_quantity_def shape_volume_def createLine_def
      findMaterial_def allMaterials_def MATERIALS_def mk_material_def
      toNumber_examples box_volume_overflow Let_def)

subsection \<open>The line cost\<close>

lemma jmul_nonpos_multiplier:
  assumes "jle a (Fin 0)" "1 \<le> n"
  shows "jle (jmul a (Fin n)) (Fin 0)"
proof (cases a)
  case (Fin x)
  then have "x * n \<le> 0"
    using assms by (simp add: mult_nonpos_nonneg)
  then show ?thesis
    using Fin by (simp add: rnd_nonpos)
next
  case NInf
  then show ?thesis
    using assms by (simp add: signed_inf_def)
qed (use assms in auto)

text \<open>
  The claim C3 says that a negative unit price is coerced to 0. It is not: \<open>toNumber\<close>
  only replaces a value that does not parse to a finite number, so the unit price \<open>-5\<close>
  stays \<open>-5\<close> and two grams at that price cost \<open>-10\<close>.
\<close>

theorem negative_unit_price_counterexample:
  "toNumber ''-5'' (Fin 0) = Fin (- 5)
   \<and> toNumber ''-5'' (Fin 0) \<noteq> Fin 0
   \<and> p_cost (calcLine [] ((createLine ''a'')\<lparr>unitPrice := ''-5'', weightVal := ''2''\<rparr>)) = Fin (- 10)"
  by (simp add: line_eval toNumber_examples)

text \<open>
  C3, amended. The line cost is the coerced unit price times the effective quantity
  times the multiplier. A unit price that does not parse to a finite number is coerced to
  0; one that parses is used as parsed, negative or not, since nothing clamps it. With a
  negative unit price and a positive quantity the cost is therefore not positive: it is
  below 0, or 0 when the product is too small for a double.
\<close>

theorem line_cost_product:
  "p_cost (calcLine cm li) =
     jmul (jmul (toNumber (unitPrice li) (Fin 0)) (p_effW (calcLine cm li))) (p_qty (calcLine cm li))
   \<and> (\<not> isFinite (parseFloat (unitPrice li)) \<longrightarrow> toNumber (unitPrice li) (Fin 0) = Fin 0)
   \<and> (\<forall>x. parseFloat (unitPrice li) = Fin x \<longrightarrow> toNumber (unitPrice li) (Fin 0) = Fin x)
   \<and> (\<forall>x e. parseFloat (unitPrice li) = Fin x \<and> x < 0
               \<and> p_effW (calcLine cm li) = Fin e \<and> 0 < e
         \<longrightarrow> jle (p_cost (calcLine cm li)) (Fin 0))"
proof -
  have product: "p_cost (calcLine cm li) =
     jmul (jmul (toNumber (unitPrice li) (Fin 0)) (p_effW (calcLine cm li))) (p_qty (calcLine cm li))"
    by (simp add: calcLine_def Let_def)
  have not_positive: "jle (p_cost (calcLine cm li)) (Fin 0)"
    if "parseFloat (unitPrice li) = Fin x" "x < 0" "p_effW (calcLine cm li) = Fin e" "0 < e"
    for x e
  proof -
    obtain q :: real where m: "multiplier li = Fin (of_int (max 1 \<lfloor>q\<rfloor>))"
      using multiplier_value[of li] by blast
    have "x * e \<le> 0"
      using that by (simp add: mult_nonpos_nonneg)
    then have "jle (jmul (Fin x) (Fin e)) (Fin 0)"
      by (simp add: rnd_nonpos)
    then have "jle (jmul (jmul (Fin x) (Fin e)) (Fin (of_int (max 1 \<lfloor>q\<rfloor>)))) (Fin 0)"
      by (rule jmul_nonpos_multiplier) simp
    moreover have "p_qty (calcLine cm li) = multiplier li"
      by (simp add: calcLine_def Let_def)
    ultimately show ?thesis
      using product that m by (simp add: toNumber_parsed)
  qed
  show ?thesis
    using product not_positive by (simp add: toNumber_unparsable toNumber_parsed)
qed

text \<open>The unit price \<open>abc\<close> gives the cost 0; the unit price \<open>-5\<close> on two grams and three
  units gives \<open>-30\<close>.\<close>

theorem line_cost_product_witness:
  "p_cost (calcLine [] ((createLine ''a'')\<lparr>unitPrice := ''abc'', weightVal := ''2''\<rparr>)) = Fin 0
   \<and> toNumber ''abc'' (Fin 0) = Fin 0
   \<and> p_cost (calcLine [] ((createLine ''a'')\<lparr>unitPrice := ''-5'', weightVal := ''2'', qty := ''3''\<rparr>)) = Fin (- 30)
   \<and> toNumber ''-5'' (Fin 0) = Fin (- 5)"
  using line_cost_product[of "[]" "(createLine ''a'')\<lparr>unitPrice := ''abc'', weightVal := ''2''\<rparr>"]
    line_cost_product[of "[]" "(createLine ''a'')\<lparr>unitPrice := ''-5'', weightVal := ''2'', qty := ''3''\<rparr>"]
  by (simp add: line_eval toNumber_examples)

text \<open>The cost need not be below 0: the unit price \<open>-1e-200\<close> on a weight of \<open>1e-200\<close>
  grams gives a product too small for a double, and the cost is zero.\<close>

lemma line_cost_underflow:
  "p_cost (calcLine [] ((createLine ''a'')\<lparr>unitPrice := ''-1e-200'', weightVal := ''1e-200''\<rparr>)) = Fin 0"
proof -
  have w: "toGrams ''1e-200'' ''g'' = Fin em200"
    using rnd_in_range[OF em200_in_range]
    by (simp add: toGrams_def weight_factor_table toNumber_1em200)
  have "jmul (Fin (- em200)) (Fin em200) = Fin 0"
    using rnd_underflow[OF em200_square] by simp
  then show ?thesis
    by (simp add: calcLine_def effective_quantity_def multiplier_def findMaterial_def
        allMaterials_def MATERIALS_def mk_material_def createLine_def toNumber_examples
        toNumber_1em200 w rnd_moderate Let_def)
qed

subsection \<open>The effective quantity in dimensions mode\<close>

lemma find_builtin_diamond:
  "find (\<lambda>x. key x = ''diamond'') (allMaterials cm) = Some (MATERIALS ! 9)"
  by (simp add: allMaterials_def MATERIALS_def mk_material_def)

lemma findMaterial_key:
  "key (findMaterial cm k) = k \<or> findMaterial cm k = hd MATERIALS"
  by (auto simp: findMaterial_def find_Some_iff split: option.splits)

text \<open>The material a line resolves to has the key \<open>diamond\<close> exactly when it is the
  diamond entry of the built-in catalogue, whatever the custom materials are.\<close>

lemma findMaterial_diamond:
  "key (findMaterial cm k) = ''diamond'' \<longleftrightarrow> findMaterial cm k = MATERIALS ! 9"
proof (cases "k = ''diamond''")
  case True
  then show ?thesis
    using find_builtin_diamond[of cm]
    by (simp add: findMaterial_def) (simp add: MATERIALS_def mk_material_def)
next
  case False
  have k9: "key (MATERIALS ! 9) = ''diamond''"
    by (simp add: MATERIALS_def mk_material_def)
  have hd: "key (hd MATERIALS) \<noteq> ''diamond''"
    by (simp add: MATERIALS_def mk_material_def)
  from findMaterial_key[of cm k] show ?thesis
  proof
    assume "key (findMaterial cm k) = k"
    with False k9 show ?thesis by auto
  next
    assume "findMaterial cm k = hd MATERIALS"
    with hd k9 show ?thesis by auto
  qed
qed

text \<open>
  C4. In dimensions mode: for the diamond entry of the catalogue with the shape
  \<open>diamond_round\<close> the effective quantity is \<open>max(0, 0.0061 * diameter^2 * depth)\<close>;
  otherwise a volume is computed (the box formula, the cylinder formula, the volume entry,
  and 0 for any other shape) and converted with the density of the line, 2.7 when that
  does not parse: \<open>volume * density / 0.2\<close> for a material priced per carat,
  \<open>volume * density\<close> for one priced per gram, and the volume itself otherwise.
\<close>

theorem dimensions_effective_quantity:
  assumes "mode li = ''dimensions''"
  shows "MATERIALS ! 9 = mk_material ''diamond'' ''Diamante'' PerCarat 3.52
    \<and> p_effW (calcLine cm li) =
    (let m = findMaterial cm (materialKey li);
         num = (\<lambda>v. toNumber v (Fin 0))
     in if m = MATERIALS ! 9 \<and> shape li = ''diamond_round''
        then Math_max (Fin 0)
               (jmul (jmul (Fin 0.0061) (jmul (num (diameterMM li)) (num (diameterMM li))))
                  (num (depthMM li)))
        else
          let vol =
                (if shape li = ''box''
                 then Math_max (Fin 0)
                        (jmul (jmul (jdiv (num (lengthMM li)) (Fin 10)) (jdiv (num (widthMM li)) (Fin 10)))
                           (jdiv (num (heightMM li)) (Fin 10)))
                 else if shape li = ''cylinder''
                 then Math_max (Fin 0)
                        (jmul (jmul (jmul Math_PI (jdiv (num (diameterMM li)) (Fin 20)))
                                 (jdiv (num (diameterMM li)) (Fin 20)))
                           (jdiv (num (heightMM li)) (Fin 10)))
                 else if shape li = ''volume'' then num (volumeCM3 li)
                 else Fin 0);
              dens = toNumber (density li) (Fin 2.7)
          in if unit m = PerCarat then jdiv (jmul vol dens) (Fin 0.2)
             else if unit m = PerGram then jmul vol dens
             else vol)"
proof -
  have entry: "MATERIALS ! 9 = mk_material ''diamond'' ''Diamante'' PerCarat 3.52"
    by (simp add: MATERIALS_def)
  show ?thesis
    using assms findMaterial_diamond[of cm "materialKey li"] entry
    by (simp add: calcLine_def effective_quantity_def shape_volume_def Let_def
        estimateDiamondCarats_def volumeFromBoxMM_def volumeFromCylinderMM_def
        DEFAULT_DENSITY_def)
qed

text \<open>A round diamond of 6.5 mm by 4 mm is 1.0309 ct; a 10 mm cube of 18k gold (density
  15.6) is 15.6 g; 2 cm3 of ruby with an unreadable density is \<open>2 * 2.7 / 0.2 = 27\<close> ct.\<close>

theorem dimensions_effective_quantity_witness:
  "p_effW (calcLine [] ((createLine ''a'')\<lparr>materialKey := ''diamond'', mode := ''dimensions'',
      shape := ''diamond_round'', diameterMM := ''6.5'', depthMM := ''4''\<rparr>)) = Fin 1.0309
   \<and> p_effW (calcLine [] ((createLine ''a'')\<lparr>mode := ''dimensions'', shape := ''box'',
      lengthMM := ''10'', widthMM := ''10'', heightMM := ''10''\<rparr>)) = Fin 15.6
   \<and> p_effW (calcLine [] ((createLine ''a'')\<lparr>materialKey := ''ruby'', mode := ''dimensions'',
      shape := ''volume'', volumeCM3 := ''2'', density := ''x''\<rparr>)) = Fin 27"
  using dimensions_effective_quantity[of "(createLine ''a'')\<lparr>materialKey := ''diamond'', mode := ''dimensions'',
      shape := ''diamond_round'', diameterMM := ''6.5'', depthMM := ''4''\<rparr>" "[]"]
   dimensions_effective_quantity[of "(createLine ''a'')\<lparr>mode := ''dimensions'', shape := ''box'',
      lengthMM := ''10'', widthMM := ''10'', heightMM := ''10''\<rparr>" "[]"]
   dimensions_effective_quantity[of "(createLine ''a'')\<lparr>materialKey := ''ruby'', mode := ''dimensions'',
      shape := ''volume'', volumeCM3 := ''2'', density := ''x''\<rparr>" "[]"]
  by (simp add: line_eval toNumber_examples)

subsection \<open>Weights in grams\<close>

lemma unsigned_literal_in_range: "unsigned_literal s = Fin x \<Longrightarrow> in_range x"
  by (auto simp: unsigned_literal_def decimal_value_def Let_def
      split: if_splits list.splits dest: rnd_Fin_D)

lemma in_range_neg: "in_range (- x) = in_range x"
  by (simp add: in_range_def)

lemma parseFloat_in_range: "parseFloat v = Fin x \<Longrightarrow> in_range x"
proof -
  assume p: "parseFloat v = Fin x"
  have neg: "in_range x" if "jneg (unsigned_literal r) = Fin x" for r
  proof (cases "unsigned_literal r")
    case (Fin y)
    with that unsigned_literal_in_range[of r y] in_range_neg[of y] show ?thesis by auto
  qed (use that in auto)
  from p show ?thesis
    by (auto simp: parseFloat_def split: list.splits if_splits
        dest: unsigned_literal_in_range neg)
qed

lemma toNumber_zero_in_range: "toNumber v (Fin 0) = Fin x \<Longrightarrow> in_range x"
  using toNumber_cases[of v "Fin 0"] parseFloat_in_range[of v x]
  by (auto simp: in_range_def overflow_threshold_pos)

lemma jmul_one: "jmul (toNumber v (Fin 0)) (Fin 1) = toNumber v (Fin 0)"
proof -
  obtain x where x: "toNumber v (Fin 0) = Fin x"
    using toNumber_Fin by blast
  then show ?thesis
    using toNumber_zero_in_range[OF x] by (simp add: rnd_in_range)
qed

text \<open>The lookup finds nothing under a name that is neither in the table nor inherited,
  and \<open>|| 1\<close> then gives the factor 1. The two units a line can hold beside those of the
  table, \<open>ct\<close> and \<open>cm3\<close>, are such names.\<close>

lemma weight_factor_default:
  "WEIGHT_UNITS_get u = JUndefined
   \<Longrightarrow> ToNumber (js_or (WEIGHT_UNITS_get u) (JNumber (Fin 1))) = Fin 1"
  by (simp add: js_or_def)

lemma weightUnit_values_lookup:
  "u \<in> set weightUnit_values \<Longrightarrow> u \<notin> {''g'', ''dwt'', ''ozt''} \<Longrightarrow> WEIGHT_UNITS_get u = JUndefined"
  by (auto simp: weightUnit_values_def WEIGHT_UNITS_get_def WEIGHT_UNITS_def
      Object_prototype_names_def)

text \<open>
  C6. For every value, \<open>toGrams(value, unit)\<close> is the coerced value times 1 for \<open>g\<close>,
  1.555 for \<open>dwt\<close> and 31.103 for \<open>ozt\<close>. Every unit a line can hold that is not in the
  table (\<open>ct\<close>, \<open>cm3\<close>) has the factor 1, and so has every unit under which the lookup in
  the table finds nothing; the product with 1 is the coerced value itself, so the value
  is taken as grams. A value that does not parse to a finite number is coerced to 0.
  \<open>toGrams(1, 'ozt')\<close> is 31.103 and \<open>toGrams(10, 'dwt')\<close> is within 0.01 of 15.55.
\<close>

theorem weight_to_grams:
  "toGrams v ''g'' = jmul (toNumber v (Fin 0)) (Fin 1)
   \<and> toGrams v ''dwt'' = jmul (toNumber v (Fin 0)) (Fin 1.555)
   \<and> toGrams v ''ozt'' = jmul (toNumber v (Fin 0)) (Fin 31.103)
   \<and> (\<forall>u \<in> set weightUnit_values. u \<notin> {''g'', ''dwt'', ''ozt''}
         \<longrightarrow> toGrams v u = jmul (toNumber v (Fin 0)) (Fin 1))
   \<and> (\<forall>u. WEIGHT_UNITS_get u = JUndefined \<longrightarrow> toGrams v u = jmul (toNumber v (Fin 0)) (Fin 1))
   \<and> jmul (toNumber v (Fin 0)) (Fin 1) = toNumber v (Fin 0)
   \<and> (\<not> isFinite (parseFloat v) \<longrightarrow> toNumber v (Fin 0) = Fin 0)
   \<and> toGrams ''1'' ''ozt'' = Fin 31.103
   \<and> (\<exists>x. toGrams ''10'' ''dwt'' = Fin x \<and> \<bar>x - 15.55\<bar> \<le> 1 / 100)"
proof -
  have ozt: "toGrams ''1'' ''ozt'' = Fin 31.103"
    by (simp add: toGrams_def weight_factor_table toNumber_examples rnd_moderate)
  have "toGrams ''10'' ''dwt'' = Fin 15.55"
    by (simp add: toGrams_def weight_factor_table toNumber_examples rnd_moderate)
  then have dwt: "\<exists>x. toGrams ''10'' ''dwt'' = Fin x \<and> \<bar>x - 15.55\<bar> \<le> 1 / 100"
    by (intro exI[of _ "15.55"]) simp
  have table: "toGrams v ''g'' = jmul (toNumber v (Fin 0)) (Fin 1)
      \<and> toGrams v ''dwt'' = jmul (toNumber v (Fin 0)) (Fin 1.555)
      \<and> toGrams v ''ozt'' = jmul (toNumber v (Fin 0)) (Fin 31.103)"
    by (simp add: toGrams_def weight_factor_table)
  have missing: "toGrams v u = jmul (toNumber v (Fin 0)) (Fin 1)"
    if "WEIGHT_UNITS_get u = JUndefined" for u
    using weight_factor_default[OF that] by (simp add: toGrams_def)
  have held: "toGrams v u = jmul (toNumber v (Fin 0)) (Fin 1)"
    if "u \<in> set weightUnit_values" "u \<notin> {''g'', ''dwt'', ''ozt''}" for u
    by (rule missing[OF weightUnit_values_lookup[OF that]])
  have unparsable: "\<not> isFinite (parseFloat v) \<longrightarrow> toNumber v (Fin 0) = Fin 0"
    by (simp add: toNumber_unparsable)
  from table held missing jmul_one[of v] unparsable ozt dwt show ?thesis
    by blast
qed

text \<open>Two carats stay 2 (\<open>ct\<close> is not in the table), and so do 2 cm3 and 2 of a unit
  \<open>kg\<close>; an unreadable weight is 0 grams, and 2 dwt are 3.11 g.\<close>

theorem weight_to_grams_witness:
  "toGrams ''2'' ''ct'' = Fin 2
   \<and> toGrams ''2'' ''cm3'' = Fin 2
   \<and> toGrams ''2'' ''kg'' = Fin 2
   \<and> toGrams ''abc'' ''ozt'' = Fin 0
   \<and> toGrams ''2'' ''dwt'' = Fin 3.11"
  using weight_to_grams[of "''2''"] weight_to_grams[of "''abc''"]
  by (simp add: toNumber_examples weightUnit_values_def WEIGHT_UNITS_get_def WEIGHT_UNITS_def
      Object_prototype_names_def rnd_moderate)

text \<open>
  A unit that names a member every object inherits is not among the values a line can
  hold. The lookup would find it on the prototype: \<open>WEIGHT_UNITS['toString']\<close> is a
  function, which is truthy, so \<open>|| 1\<close> would keep it and the product would be NaN.
\<close>

lemma toGrams_inherited_name:
  "WEIGHT_UNITS_get ''toString'' = JObject"
  "toGrams ''5'' ''toString'' = NaN"
  by (simp_all add: toGrams_def toNumber_examples js_or_def WEIGHT_UNITS_get_def WEIGHT_UNITS_def
      Object_prototype_names_def)

section \<open>The history cap\<close>

lemma take_append_take: "take n (xs @ take n ys) = take n (xs @ ys)"
  by (simp add: min_def)

lemma saveHistory_length: "length (saveHistory e history) \<le> 500"
  by (simp add: saveHistory_def)

lemma save_all_rev:
  "length history \<le> 500 \<Longrightarrow> save_all history es = take 500 (rev es @ history)"
  unfolding save_all_def
proof (induction es arbitrary: history)
  case Nil
  then show ?case by simp
next
  case (Cons e es)
  have "foldl (\<lambda>h e. saveHistory e h) (saveHistory e history) es
        = take 500 (rev es @ saveHistory e history)"
    by (rule Cons.IH[OF saveHistory_length])
  then show ?case
    using take_append_take[of 500 "rev es" "e # history"] by (simp add: saveHistory_def)
qed

text \<open>
  C8. From a history of at most 500 entries, a save leaves at most 500 entries with the
  new entry first; below the cap nothing is dropped, and at the cap it is the last (the
  oldest) entry that goes. After any run of saves the history is the saved entries, newest
  first, followed by the old history, cut at 500: it has at most 500 entries and the entry
  saved last is first.
\<close>

theorem history_capped_newest_first:
  assumes "length history \<le> 500"
  shows "length (saveHistory e history) \<le> 500
    \<and> hd (saveHistory e history) = e
    \<and> (length history < 500 \<longrightarrow> saveHistory e history = e # history)
    \<and> (length history = 500 \<longrightarrow> saveHistory e history = e # butlast history)
    \<and> length (save_all history es) \<le> 500
    \<and> save_all history es = take 500 (rev es @ history)
    \<and> (es \<noteq> [] \<longrightarrow> hd (save_all history es) = last es)"
proof -
  have all: "save_all history es = take 500 (rev es @ history)"
    by (rule save_all_rev[OF assms])
  have full: "saveHistory e history = e # butlast history" if "length history = 500"
    using that by (simp add: saveHistory_def butlast_conv_take)
  have newest: "hd (save_all history es) = last es" if "es \<noteq> []"
    using that all by (cases es rule: rev_cases) simp_all
  show ?thesis
    using assms all full newest by (simp add: saveHistory_def)
qed

text \<open>Saving 3 on \<open>[2, 1]\<close> gives \<open>[3, 2, 1]\<close>; saving on a full history of 500 keeps 500
  entries.\<close>

theorem history_capped_newest_first_witness:
  "saveHistory (3::nat) [2, 1] = [3, 2, 1]
   \<and> save_all [1::nat] [2, 3] = [3, 2, 1]
   \<and> saveHistory (0::nat) (replicate 500 7) = 0 # replicate 499 7
   \<and> length (saveHistory (0::nat) (replicate 500 7)) = 500"
  using history_capped_newest_first[of "[2, 1::nat]" 3 "[]"]
    history_capped_newest_first[of "[1::nat]" 0 "[2, 3]"]
    history_capped_newest_first[of "replicate 500 (7::nat)" 0 "[]"]
  by (simp add: saveHistory_def save_all_def)

section \<open>Totals, percentages and diagnosis\<close>

subsection \<open>Total weight\<close>

lemma unitFor_g: "unitFor m = ''g'' \<longleftrightarrow> unit m \<noteq> PerCarat \<and> unit m \<noteq> PerCm3"
  by (simp add: unitFor_def)

lemma weight_fold:
  "foldl (weight_step cm) a (zip (map (calcLine cm) ls) ls)
   = foldl jadd a
       (map (\<lambda>li. jmul (p_effW (calcLine cm li)) (p_qty (calcLine cm li)))
          (filter (\<lambda>li. unitFor (findMaterial cm (materialKey li)) = ''g'') ls))"
  by (induction ls arbitrary: a) (simp_all add: weight_step_def Let_def)

text \<open>
  C9. The total weight in grams is the sum, from 0 and in the order of the lines, of
  effective quantity times multiplier over exactly the lines whose material \<open>unitFor\<close>
  gives the unit \<open>g\<close>; the lines of a material priced per carat or per volume are left
  out, whatever they weigh. \<open>unitFor\<close> gives \<open>g\<close> for every material that is priced neither
  per carat nor per volume.
\<close>

theorem total_weight_per_gram_lines:
  "totalWeightG st =
     foldl jadd (Fin 0)
       (map (\<lambda>li. jmul (p_effW (calcLine (customMaterials st) li))
                      (p_qty (calcLine (customMaterials st) li)))
          (filter (\<lambda>li. unitFor (findMaterial (customMaterials st) (materialKey li)) = ''g'')
             (lines st)))
   \<and> (unitFor m = ''g'' \<longleftrightarrow> unit m \<noteq> PerCarat \<and> unit m \<noteq> PerCm3)"
proof -
  have "totalWeightG st =
      foldl (weight_step (customMaterials st)) (Fin 0)
        (zip (map (calcLine (customMaterials st)) (lines st)) (lines st))"
    by (simp add: totalWeightG_def parts_def)
  then show ?thesis
    using weight_fold[of "customMaterials st" "Fin 0" "lines st"] unitFor_g[of m]
    by simp
qed

text \<open>Three gold units of 2 g, a diamond of 5 ct and 10 dwt of gold: \<open>6 + 15.55\<close> grams;
  the diamond is not counted.\<close>

theorem total_weight_per_gram_lines_witness:
  "totalWeightG \<lparr>customMaterials = [], pieceType = anillo_fino, complexity = media, laborOverride = [],
     lines = [(createLine ''a'')\<lparr>weightVal := ''2'', qty := ''3''\<rparr>,
              (createLine ''b'')\<lparr>materialKey := ''diamond'', weightVal := ''5''\<rparr>,
              (createLine ''c'')\<lparr>weightVal := ''10'', weightUnit := ''dwt''\<rparr>], piecePrice = []\<rparr> = Fin 21.55"
  using total_weight_per_gram_lines[of "\<lparr>customMaterials = [], pieceType = anillo_fino, complexity = media, laborOverride = [],
     lines = [(createLine ''a'')\<lparr>weightVal := ''2'', qty := ''3''\<rparr>,
              (createLine ''b'')\<lparr>materialKey := ''diamond'', weightVal := ''5''\<rparr>,
              (createLine ''c'')\<lparr>weightVal := ''10'', weightUnit := ''dwt''\<rparr>], piecePrice = []\<rparr>"]
  by (simp add: totalWeightG_def parts_def weight_step_def line_eval toNumber_examples Let_def)

subsection \<open>Diagnosis\<close>

lemma jgt_zero_not_le: "jgt c (Fin 0) \<Longrightarrow> \<not> jle c (Fin 0)"
  by (cases c) (auto simp: jgt_def)

lemma jgt_zero_truthy: "jgt p (Fin 0) \<Longrightarrow> truthy p"
  by (cases p) (auto simp: jgt_def)

text \<open>A total cost that is a number is \<open><= 0\<close> as soon as it is not \<open>> 0\<close>.\<close>

lemma not_jgt_zero_le: "c \<noteq> NaN \<Longrightarrow> \<not> jgt c (Fin 0) \<Longrightarrow> jle c (Fin 0)"
  by (cases c) (auto simp: jgt_def)

lemmas state_eval =
  diagnosis_def diagnosis_effect_def overPctTotal_def pctMaterials_def pctTotal_def
  totalCost_def jgt_def jsub_def rnd_moderate
  Precio_sospechoso_def Sobrevalorado_def Posible_sobrevaloracion_def Precio_razonable_def

text \<open>
  The claim C1 says that the diagnosis is empty whenever the quoted price is not \<open>> 0\<close>.
  The effect tests the price for truth (\<open>!priceP\<close>), which only a price of 0 fails: with
  the price \<open>-5\<close> and the total cost 60 of the initial state the price is below the cost
  and the label is \<open>Precio sospechoso\<close>.
\<close>

theorem negative_price_counterexample:
  "priceP (initial_state\<lparr>piecePrice := ''-5''\<rparr>) = Fin (- 5)
   \<and> totalCost (initial_state\<lparr>piecePrice := ''-5''\<rparr>) = Fin 60
   \<and> diagnosis (initial_state\<lparr>piecePrice := ''-5''\<rparr>) = ''Precio sospechoso''"
  by (simp add: state_eval initial_state_figures' toNumber_examples)

text \<open>
  C1, amended. With a quoted price \<open>P > 0\<close> and a total cost \<open>C > 0\<close> the label follows the
  rules in order: \<open>P < C\<close> gives \<open>Precio sospechoso\<close>; else an overage
  \<open>(P - C) / C * 100\<close> above 40 gives \<open>Sobrevalorado\<close>; else one above 20 gives
  \<open>Posible sobrevaloracion\<close>; else \<open>Precio razonable\<close>. The comparisons are strict, so an
  overage of exactly 40 or exactly 20 falls in the lower bucket. The diagnosis is empty
  whenever \<open>P\<close> is 0, and whenever \<open>C\<close> is a number that is not \<open>> 0\<close>; a negative \<open>P\<close>
  with \<open>C > 0\<close> gives \<open>Precio sospechoso\<close>.

  Nothing is stated for a total cost that is NaN, which an overflow in a line produces.
  The effect tests \<open>totalCost <= 0\<close> where the overage and the simpler version of the
  component test \<open>totalCost > 0\<close>; the two tests differ on NaN only.
\<close>

theorem diagnosis_thresholds:
  "(jgt (priceP st) (Fin 0) \<and> jgt (totalCost st) (Fin 0) \<longrightarrow>
      overPctTotal st = jmul (jdiv (jsub (priceP st) (totalCost st)) (totalCost st)) (Fin 100)
      \<and> diagnosis st =
          (if jlt (priceP st) (totalCost st) then Precio_sospechoso
           else if jgt (overPctTotal st) (Fin 40) then Sobrevalorado
           else if jgt (overPctTotal st) (Fin 20) then Posible_sobrevaloracion
           else Precio_razonable)
      \<and> (\<not> jlt (priceP st) (totalCost st) \<and> overPctTotal st = Fin 40
            \<longrightarrow> diagnosis st = Posible_sobrevaloracion)
      \<and> (\<not> jlt (priceP st) (totalCost st) \<and> overPctTotal st = Fin 20
            \<longrightarrow> diagnosis st = Precio_razonable))
   \<and> (priceP st = Fin 0 \<longrightarrow> diagnosis st = [])
   \<and> (totalCost st \<noteq> NaN \<and> \<not> jgt (totalCost st) (Fin 0) \<longrightarrow> diagnosis st = [])
   \<and> (jlt (priceP st) (Fin 0) \<and> jgt (totalCost st) (Fin 0)
        \<longrightarrow> diagnosis st = Precio_sospechoso)"
proof -
  have no_price: "diagnosis st = []" if "priceP st = Fin 0"
    using that by (simp add: diagnosis_def diagnosis_effect_def)
  have no_cost: "diagnosis st = []" if "totalCost st \<noteq> NaN" "\<not> jgt (totalCost st) (Fin 0)"
    using not_jgt_zero_le[OF that] by (simp add: diagnosis_def diagnosis_effect_def)
  have chain: "diagnosis st =
          (if jlt (priceP st) (totalCost st) then Precio_sospechoso
           else if jgt (overPctTotal st) (Fin 40) then Sobrevalorado
           else if jgt (overPctTotal st) (Fin 20) then Posible_sobrevaloracion
           else Precio_razonable)"
    if "jgt (priceP st) (Fin 0)" "jgt (totalCost st) (Fin 0)"
    using jgt_zero_truthy[OF that(1)] jgt_zero_not_le[OF that(2)]
    by (simp add: diagnosis_def diagnosis_effect_def)
  have over: "overPctTotal st = jmul (jdiv (jsub (priceP st) (totalCost st)) (totalCost st)) (Fin 100)"
    if "jgt (totalCost st) (Fin 0)"
    using that by (simp add: overPctTotal_def)
  have negative: "diagnosis st = Precio_sospechoso"
    if "jlt (priceP st) (Fin 0)" "jgt (totalCost st) (Fin 0)"
  proof -
    obtain p where p: "priceP st = Fin p"
      using priceP_Fin[of st] by blast
    then have neg: "p < 0"
      using that(1) by simp
    have "jlt (Fin p) (totalCost st)"
      using that(2) neg by (cases "totalCost st") (auto simp: jgt_def)
    then show ?thesis
      using p neg jgt_zero_not_le[OF that(2)]
      by (simp add: diagnosis_def diagnosis_effect_def)
  qed
  show ?thesis
    using no_price no_cost chain over negative by (simp add: jgt_def)
qed

text \<open>With the total cost 1000: the prices 1100, 1300, 2000 and 900 give the four labels of
  the boundary table, 1200 (overage 20) is still reasonable, 1400 (overage 40) is still
  only possibly overvalued, no price gives no label, and the price \<open>-3\<close> is suspicious.
  With a total cost of 0 the price 100 gives no label.\<close>

theorem diagnosis_thresholds_witness:
  "diagnosis (initial_state\<lparr>laborOverride := ''1000'', piecePrice := ''1100''\<rparr>) = Precio_razonable
   \<and> diagnosis (initial_state\<lparr>laborOverride := ''1000'', piecePrice := ''1300''\<rparr>) = Posible_sobrevaloracion
   \<and> diagnosis (initial_state\<lparr>laborOverride := ''1000'', piecePrice := ''2000''\<rparr>) = Sobrevalorado
   \<and> diagnosis (initial_state\<lparr>laborOverride := ''1000'', piecePrice := ''900''\<rparr>) = Precio_sospechoso
   \<and> diagnosis (initial_state\<lparr>laborOverride := ''1000'', piecePrice := ''1200''\<rparr>) = Precio_razonable
   \<and> diagnosis (initial_state\<lparr>laborOverride := ''1000'', piecePrice := ''1400''\<rparr>) = Posible_sobrevaloracion
   \<and> diagnosis (initial_state\<lparr>laborOverride := ''1000'', piecePrice := []\<rparr>) = []
   \<and> diagnosis (initial_state\<lparr>laborOverride := ''1000'', piecePrice := ''-3''\<rparr>) = Precio_sospechoso
   \<and> totalCost (initial_state\<lparr>laborOverride := ''0'', piecePrice := ''100''\<rparr>) = Fin 0
   \<and> diagnosis (initial_state\<lparr>laborOverride := ''0'', piecePrice := ''100''\<rparr>) = []"
  using diagnosis_thresholds[of "(initial_state\<lparr>laborOverride := ''1000'', piecePrice := ''1100''\<rparr>)"]
    diagnosis_thresholds[of "(initial_state\<lparr>laborOverride := ''1000'', piecePrice := ''1200''\<rparr>)"]
    diagnosis_thresholds[of "(initial_state\<lparr>laborOverride := ''1000'', piecePrice := ''1400''\<rparr>)"]
    diagnosis_thresholds[of "(initial_state\<lparr>laborOverride := ''1000'', piecePrice := []\<rparr>)"]
    diagnosis_thresholds[of "(initial_state\<lparr>laborOverride := ''1000'', piecePrice := ''-3''\<rparr>)"]
    diagnosis_thresholds[of "(initial_state\<lparr>laborOverride := ''0'', piecePrice := ''100''\<rparr>)"]
  by (simp add: state_eval initial_state_figures initial_state_figures' toNumber_examples
      toNumber_prices)

subsection \<open>Percentages\<close>

lemma rnd_not_NaN: "rnd x \<noteq> NaN"
  by (simp add: rnd_def)

lemma jmul_100_not_NaN: "x \<noteq> NaN \<Longrightarrow> jmul x (Fin 100) \<noteq> NaN"
  by (cases x) (simp_all add: rnd_not_NaN signed_inf_def)

lemma jdiv_pos_not_NaN: "x \<noteq> NaN \<Longrightarrow> 0 < c \<Longrightarrow> jdiv x (Fin c) \<noteq> NaN"
  by (cases x) (simp_all add: rnd_not_NaN)

lemma jgt_zero_cases: "jgt x (Fin 0) \<longleftrightarrow> x = PInf \<or> (\<exists>a. x = Fin a \<and> 0 < a)"
  by (cases x) (auto simp: jgt_def)

lemma pct_not_NaN:
  assumes "isFinite x" "jgt p (Fin 0)" "isFinite p"
  shows "jmul (jdiv x p) (Fin 100) \<noteq> NaN"
proof -
  obtain a where a: "x = Fin a"
    using assms(1) by (cases x) auto
  obtain c where c: "p = Fin c" "0 < c"
    using assms(2,3) by (cases p) (auto simp: jgt_def)
  show ?thesis
    unfolding a c by (intro jmul_100_not_NaN jdiv_pos_not_NaN) (simp_all add: c)
qed

lemma over_not_NaN:
  assumes "isFinite t" "jgt t (Fin 0)" "isFinite p"
  shows "jmul (jdiv (jsub p t) t) (Fin 100) \<noteq> NaN"
proof -
  obtain c where c: "t = Fin c" "0 < c"
    using assms(1,2) by (cases t) (auto simp: jgt_def)
  obtain a where a: "p = Fin a"
    using assms(3) by (cases p) auto
  have "jsub p t \<noteq> NaN"
    by (simp add: a c jsub_def rnd_not_NaN)
  then show ?thesis
    unfolding c(1) by (intro jmul_100_not_NaN jdiv_pos_not_NaN) (simp_all add: c)
qed

text \<open>
  The claim C10 says that no input gives a NaN percentage. The guards keep a zero divisor
  out, but NaN also comes from an overflow: a weight entry \<open>1e308\<close> in troy ounces is
  \<open>Infinity\<close> grams, the empty unit price is 0, and \<open>0 * Infinity\<close> is NaN. The subtotal is
  then NaN, and with the quoted price 1 both percentages of the price are NaN.
\<close>

theorem overflow_percentage_counterexample:
  "jgt (priceP (initial_state\<lparr>lines := [(createLine ''line1'')\<lparr>weightVal := ''1e308'', weightUnit := ''ozt''\<rparr>],
        piecePrice := ''1''\<rparr>)) (Fin 0)
   \<and> subtotal (initial_state\<lparr>lines := [(createLine ''line1'')\<lparr>weightVal := ''1e308'', weightUnit := ''ozt''\<rparr>],
        piecePrice := ''1''\<rparr>) = NaN
   \<and> pctMaterials (initial_state\<lparr>lines := [(createLine ''line1'')\<lparr>weightVal := ''1e308'', weightUnit := ''ozt''\<rparr>],
        piecePrice := ''1''\<rparr>) = NaN
   \<and> pctTotal (initial_state\<lparr>lines := [(createLine ''line1'')\<lparr>weightVal := ''1e308'', weightUnit := ''ozt''\<rparr>],
        piecePrice := ''1''\<rparr>) = NaN"
proof -
  have c: "p_cost (calcLine [] ((createLine ''line1'')\<lparr>weightVal := ''1e308'', weightUnit := ''ozt''\<rparr>)) = NaN"
    by (simp add: calcLine_def effective_quantity_def multiplier_def findMaterial_def
        allMaterials_def MATERIALS_def mk_material_def createLine_def toNumber_examples
        toGrams_overflow signed_inf_def Let_def)
  show ?thesis
    by (simp add: initial_state_def pctMaterials_def pctTotal_def totalCost_def subtotal_def
        parts_def priceP_def jgt_def toNumber_examples c)
qed

text \<open>
  C10, amended. When the coerced quoted price is not \<open>> 0\<close> the two percentages of the
  price are exactly 0, and when the total cost is not \<open>> 0\<close> the overage is exactly 0. A
  division is evaluated only under its guard, so its divisor is \<open>> 0\<close> and never zero. No
  percentage is NaN as long as the subtotal and the total cost are finite numbers.
\<close>

theorem percentages_guarded:
  "(\<not> jgt (priceP st) (Fin 0) \<longrightarrow> pctMaterials st = Fin 0 \<and> pctTotal st = Fin 0)
   \<and> (\<not> jgt (totalCost st) (Fin 0) \<longrightarrow> overPctTotal st = Fin 0)
   \<and> (jgt (priceP st) (Fin 0) \<longrightarrow>
        priceP st \<noteq> Fin 0
        \<and> pctMaterials st = jmul (jdiv (subtotal st) (priceP st)) (Fin 100)
        \<and> pctTotal st = jmul (jdiv (totalCost st) (priceP st)) (Fin 100))
   \<and> (jgt (totalCost st) (Fin 0) \<longrightarrow>
        totalCost st \<noteq> Fin 0
        \<and> overPctTotal st = jmul (jdiv (jsub (priceP st) (totalCost st)) (totalCost st)) (Fin 100))
   \<and> (isFinite (subtotal st) \<longrightarrow> pctMaterials st \<noteq> NaN)
   \<and> (isFinite (totalCost st) \<longrightarrow> pctTotal st \<noteq> NaN \<and> overPctTotal st \<noteq> NaN)"
proof -
  have guards: "(\<not> jgt (priceP st) (Fin 0) \<longrightarrow> pctMaterials st = Fin 0 \<and> pctTotal st = Fin 0)
      \<and> (\<not> jgt (totalCost st) (Fin 0) \<longrightarrow> overPctTotal st = Fin 0)"
    by (simp add: pctMaterials_def pctTotal_def overPctTotal_def)
  have divs: "(jgt (priceP st) (Fin 0) \<longrightarrow>
        priceP st \<noteq> Fin 0
        \<and> pctMaterials st = jmul (jdiv (subtotal st) (priceP st)) (Fin 100)
        \<and> pctTotal st = jmul (jdiv (totalCost st) (priceP st)) (Fin 100))
      \<and> (jgt (totalCost st) (Fin 0) \<longrightarrow>
        totalCost st \<noteq> Fin 0
        \<and> overPctTotal st = jmul (jdiv (jsub (priceP st) (totalCost st)) (totalCost st)) (Fin 100))"
    by (auto simp: pctMaterials_def pctTotal_def overPctTotal_def jgt_def)
  have m: "pctMaterials st \<noteq> NaN" if "isFinite (subtotal st)"
    using pct_not_NaN[OF that _ priceP_isFinite] by (simp add: pctMaterials_def)
  have t: "pctTotal st \<noteq> NaN" if "isFinite (totalCost st)"
    using pct_not_NaN[OF that _ priceP_isFinite] by (simp add: pctTotal_def)
  have ov: "overPctTotal st \<noteq> NaN" if "isFinite (totalCost st)"
    using over_not_NaN[OF that _ priceP_isFinite] by (simp add: overPctTotal_def)
  from guards divs m t ov show ?thesis
    by blast
qed

lemma worked_example_line:
  "p_cost (calcLine [] ((createLine ''line1'')\<lparr>unitPrice := ''10'', weightVal := ''100''\<rparr>)) = Fin 1000"
  by (simp add: line_eval toNumber_examples Let_def)

text \<open>The worked example: subtotal 1000, labour 90, price 1400 give \<open>500/7\<close> (71.4),
  \<open>545/7\<close> (77.9) and \<open>3100/109\<close> (28.4); with no price the percentages are 0, and with
  no cost the overage is 0.\<close>

theorem percentages_guarded_witness:
  "pctMaterials (initial_state\<lparr>laborOverride := ''90'',
      lines := [(createLine ''line1'')\<lparr>unitPrice := ''10'', weightVal := ''100''\<rparr>],
      piecePrice := ''1400''\<rparr>) = Fin (500 / 7)
   \<and> pctTotal (initial_state\<lparr>laborOverride := ''90'',
      lines := [(createLine ''line1'')\<lparr>unitPrice := ''10'', weightVal := ''100''\<rparr>],
      piecePrice := ''1400''\<rparr>) = Fin (545 / 7)
   \<and> overPctTotal (initial_state\<lparr>laborOverride := ''90'',
      lines := [(createLine ''line1'')\<lparr>unitPrice := ''10'', weightVal := ''100''\<rparr>],
      piecePrice := ''1400''\<rparr>) = Fin (3100 / 109)
   \<and> pctMaterials initial_state = Fin 0
   \<and> pctTotal initial_state = Fin 0
   \<and> overPctTotal (initial_state\<lparr>laborOverride := ''0''\<rparr>) = Fin 0"
  using percentages_guarded[of "initial_state\<lparr>laborOverride := ''90'',
      lines := [(createLine ''line1'')\<lparr>unitPrice := ''10'', weightVal := ''100''\<rparr>],
      piecePrice := ''1400''\<rparr>"]
    percentages_guarded[of initial_state]
    percentages_guarded[of "initial_state\<lparr>laborOverride := ''0''\<rparr>"]
  by (simp add: initial_state_def pctMaterials_def pctTotal_def overPctTotal_def totalCost_def
      subtotal_def parts_def laborCost_def laborEstimated_def suggestedHours_def priceP_def
      DEFAULT_RATE_EUR_H_def jgt_def jsub_def rnd_moderate worked_example_line
      toNumber_examples toNumber_prices
      calcLine_def effective_quantity_def multiplier_def findMaterial_def allMaterials_def
      MATERIALS_def mk_material_def createLine_def toGrams_def weight_factor_table Let_def)

section \<open>The alias resolver\<close>

lemma first_match_index:
  "k < length rs \<Longrightarrow> regex_test (rule_test (rs ! k)) s
   \<Longrightarrow> (\<forall>j<k. \<not> regex_test (rule_test (rs ! j)) s)
   \<Longrightarrow> first_match rs s = Some (rule_key (rs ! k))"
proof (induction rs arbitrary: k)
  case Nil
  then show ?case by simp
next
  case (Cons r rs)
  show ?case
  proof (cases k)
    case 0
    with Cons.prems show ?thesis by simp
  next
    case (Suc n)
    have "\<not> regex_test (rule_test r) s"
      using Cons.prems(3) Suc by auto
    moreover have "first_match rs s = Some (rule_key (rs ! n))"
      using Cons.prems Suc by (intro Cons.IH) auto
    ultimately show ?thesis
      using Suc by simp
  qed
qed

lemma first_match_none:
  "(\<forall>r\<in>set rs. \<not> regex_test (rule_test r) s) \<Longrightarrow> first_match rs s = None"
  by (induction rs) simp_all

lemma alias_examples:
  "detectMaterialFromAlias ''750/1000'' = Some ''gold_18k''"
  "detectMaterialFromAlias ''925'' = Some ''silver_925''"
  "detectMaterialFromAlias ''hola'' = None"
  by code_simp+

text \<open>
  C7. The resolver trims the text and returns null when nothing is left; otherwise it
  returns the key of the first rule, in the order of the table, whose pattern matches the
  trimmed text, and null when no rule matches. \<open>750/1000\<close> resolves to \<open>gold_18k\<close>, \<open>925\<close> to
  \<open>silver_925\<close>, and \<open>hola\<close> to null.
\<close>

theorem alias_first_matching_rule:
  "(trim txt = [] \<longrightarrow> detectMaterialFromAlias txt = None)
   \<and> (trim txt \<noteq> [] \<and> k < length EQUIVALENCE_RULES
        \<and> regex_test (rule_test (EQUIVALENCE_RULES ! k)) (trim txt)
        \<and> (\<forall>j<k. \<not> regex_test (rule_test (EQUIVALENCE_RULES ! j)) (trim txt))
        \<longrightarrow> detectMaterialFromAlias txt = Some (rule_key (EQUIVALENCE_RULES ! k)))
   \<and> (trim txt \<noteq> [] \<and> (\<forall>r\<in>set EQUIVALENCE_RULES. \<not> regex_test (rule_test r) (trim txt))
        \<longrightarrow> detectMaterialFromAlias txt = None)
   \<and> detectMaterialFromAlias ''750/1000'' = Some ''gold_18k''
   \<and> detectMaterialFromAlias ''925'' = Some ''silver_925''
   \<and> detectMaterialFromAlias ''hola'' = None"
  using first_match_index[of k EQUIVALENCE_RULES "trim txt"]
    first_match_none[of EQUIVALENCE_RULES "trim txt"] alias_examples
  by (simp add: detectMaterialFromAlias_def Let_def)

text \<open>\<open>18K\<close> between blanks is matched by the first rule whatever the case of the letter;
  \<open>sterling silver\<close> is matched by the fourth rule and by none before it; \<open>585 750\<close> is
  matched by the first two rules and resolves to the key of the first; blanks alone
  resolve to null.\<close>

theorem alias_first_matching_rule_witness:
  "detectMaterialFromAlias ''  18K '' = Some ''gold_18k''
   \<and> detectMaterialFromAlias ''sterling silver'' = Some ''silver_925''
   \<and> detectMaterialFromAlias ''585 750'' = Some ''gold_18k''
   \<and> regex_test (rule_test (EQUIVALENCE_RULES ! 1)) ''585 750''
   \<and> detectMaterialFromAlias ''   '' = None"
proof -
  have t: "trim ''  18K '' = ''18K''" "trim ''sterling silver'' = ''sterling silver''"
    "trim ''585 750'' = ''585 750''" "trim ''   '' = []"
    by code_simp+
  have len: "length EQUIVALENCE_RULES = 5"
    by (simp add: EQUIVALENCE_RULES_def)
  have k0: "rule_key (EQUIVALENCE_RULES ! 0) = ''gold_18k''"
    and k3: "rule_key (EQUIVALENCE_RULES ! 3) = ''silver_925''"
    by (simp_all add: EQUIVALENCE_RULES_def)
  have m: "regex_test (rule_test (EQUIVALENCE_RULES ! 0)) ''18K''"
    "regex_test (rule_test (EQUIVALENCE_RULES ! 3)) ''sterling silver''"
    "regex_test (rule_test (EQUIVALENCE_RULES ! 0)) ''585 750''"
    "regex_test (rule_test (EQUIVALENCE_RULES ! 1)) ''585 750''"
    by code_simp+
  have n: "\<not> regex_test (rule_test (EQUIVALENCE_RULES ! 0)) ''sterling silver''"
    "\<not> regex_test (rule_test (EQUIVALENCE_RULES ! 1)) ''sterling silver''"
    "\<not> regex_test (rule_test (EQUIVALENCE_RULES ! 2)) ''sterling silver''"
    by code_simp+
  have before: "\<forall>j<3. \<not> regex_test (rule_test (EQUIVALENCE_RULES ! j)) ''sterling silver''"
  proof (intro allI impI)
    fix j :: nat
    assume "j < 3"
    then consider "j = 0" | "j = 1" | "j = 2"
      by linarith
    then show "\<not> regex_test (rule_test (EQUIVALENCE_RULES ! j)) ''sterling silver''"
      using n by cases simp_all
  qed
  show ?thesis
    using alias_first_matching_rule[of "''  18K ''" 0]
      alias_first_matching_rule[of "''sterling silver''" 3]
      alias_first_matching_rule[of "''585 750''" 0]
      alias_first_matching_rule[of "''   ''" 0] m(4)
    by (simp add: t len k0 k3 m before)
qed

end
